theory Spec2Isabelle
  imports Complex_Main "HOL-Library.Log_Nat" "HOL-Library.Sublist"
begin

section \<open>Go primitives used by the scanners\<close>

subsection \<open>float64\<close>

text \<open>
  A \<^verbatim>\<open>float64\<close> is an IEEE-754 binary64 value: a finite value (kept as the exact
  rational it denotes), an infinity or a NaN.  Every arithmetic operation computes the
  exact result and rounds it to the nearest binary64 value, ties to even (53 significant
  bits, least exponent \<open>-1074\<close>, overflow to an infinity at \<open>2 ^ 1024\<close>).  The two
  zeros are identified: the program never prints the sign of a zero and never divides
  by zero, and the model gives a division by zero the value NaN.
\<close>

datatype float64 = Finite rat | PosInf | NegInf | NaN

definition flog2 :: "rat \<Rightarrow> int" where
  \<comment> \<open>for \<open>0 < a\<close>, the exponent \<open>e\<close> with \<open>2 ^ e \<le> a < 2 ^ (e + 1)\<close>\<close>
  "flog2 a =
     (if 1 \<le> a then bitlen \<lfloor>a\<rfloor> - 1
      else - bitlen (\<lceil>1 / a\<rceil> - 1))"

definition round_half_even :: "rat \<Rightarrow> int" where
  "round_half_even m =
     (let f = \<lfloor>m\<rfloor>; d = m - of_int f
      in if d < 1 / 2 then f
         else if 1 / 2 < d then f + 1
         else if even f then f else f + 1)"

definition overflow_threshold :: rat where
  \<comment> \<open>magnitudes that round to this bound or beyond overflow to an infinity\<close>
  "overflow_threshold = 2 powi 1024"

lemma overflow_threshold_code [code]:
  "overflow_threshold =
     179769313486231590772930519078902473361797697894230657273430081157732675805500963132708477322407536021120113879871393357658789768814416622492847430639474124377767893424865485276302219601246094119453082952085005768838150682342462881473913110540827237163350510684586298239947245938479716304835356329624224137216"
  by (simp add: overflow_threshold_def)

definition round64 :: "rat \<Rightarrow> float64" where
  "round64 x =
     (if x = 0 then Finite 0
      else
        let a = \<bar>x\<bar>;
            k = max (flog2 a) (- 1022) - 52;
            r = of_int (round_half_even (a / 2 powi k)) * 2 powi k
        in if overflow_threshold \<le> r then (if 0 < x then PosInf else NegInf)
           else Finite (if 0 < x then r else - r))"

definition f64_of_int :: "int \<Rightarrow> float64" where
  \<comment> \<open>the conversion \<^verbatim>\<open>float64(n)\<close> of an integer\<close>
  "f64_of_int n = round64 (of_int n)"

fun fadd :: "float64 \<Rightarrow> float64 \<Rightarrow> float64" where
  "fadd (Finite a) (Finite b) = round64 (a + b)"
| "fadd NaN _ = NaN"
| "fadd _ NaN = NaN"
| "fadd PosInf NegInf = NaN"
| "fadd NegInf PosInf = NaN"
| "fadd PosInf _ = PosInf"
| "fadd _ PosInf = PosInf"
| "fadd NegInf _ = NegInf"
| "fadd _ NegInf = NegInf"

fun fsign :: "float64 \<Rightarrow> int" where
  "fsign (Finite a) = (if a < 0 then - 1 else if a = 0 then 0 else 1)"
| "fsign PosInf = 1"
| "fsign NegInf = - 1"
| "fsign NaN = 0"

definition inf_of_sign :: "int \<Rightarrow> float64" where
  "inf_of_sign g = (if g = 0 then NaN else if 0 < g then PosInf else NegInf)"

fun fmul :: "float64 \<Rightarrow> float64 \<Rightarrow> float64" where
  "fmul (Finite a) (Finite b) = round64 (a * b)"
| "fmul NaN _ = NaN"
| "fmul _ NaN = NaN"
| "fmul x y = inf_of_sign (fsign x * fsign y)"

fun fdiv :: "float64 \<Rightarrow> float64 \<Rightarrow> float64" where
  "fdiv (Finite a) (Finite b) = (if b = 0 then NaN else round64 (a / b))"
| "fdiv NaN _ = NaN"
| "fdiv _ NaN = NaN"
| "fdiv (Finite a) _ = Finite 0"
| "fdiv x (Finite b) = (if b = 0 then NaN else inf_of_sign (fsign x * fsign (Finite b)))"
| "fdiv _ _ = NaN"

fun fle :: "float64 \<Rightarrow> float64 \<Rightarrow> bool" where
  "fle (Finite a) (Finite b) = (a \<le> b)"
| "fle NaN _ = False"
| "fle _ NaN = False"
| "fle NegInf _ = True"
| "fle _ PosInf = True"
| "fle PosInf _ = False"
| "fle _ NegInf = False"

definition fge :: "float64 \<Rightarrow> float64 \<Rightarrow> bool" where
  \<comment> \<open>Go's \<^verbatim>\<open>a >= b\<close> on float64: false when either side is a NaN\<close>
  "fge a b = fle b a"

fun f64_to_int :: "float64 \<Rightarrow> int" where
  \<comment> \<open>the conversion \<^verbatim>\<open>int(f)\<close>: truncation towards zero.  Go leaves the result for a
      NaN or an infinity to the implementation; the scanners never convert one.\<close>
  "f64_to_int (Finite a) = (if 0 \<le> a then \<lfloor>a\<rfloor> else \<lceil>a\<rceil>)"
| "f64_to_int _ = 0"

subsection \<open>Integers\<close>

text \<open>
  Go's \<^verbatim>\<open>int\<close> and \<^verbatim>\<open>int64\<close> values are integers of HOL.  The scanners compare sizes
  and thresholds and never add or multiply them; the one place where the program's
  integer arithmetic can leave the 64 bits is the date arithmetic of the clock, where
  the wrap-around is written out.  The counters of a scan result, which only count up
  from zero by the number of repositories and images, are natural numbers.
\<close>

definition go_quot :: "int \<Rightarrow> int \<Rightarrow> int" where
  \<comment> \<open>Go's \<^verbatim>\<open>/\<close> on integers truncates towards zero\<close>
  "go_quot a b = sgn a * sgn b * (\<bar>a\<bar> div \<bar>b\<bar>)"

definition go_rem :: "int \<Rightarrow> int \<Rightarrow> int" where
  "go_rem a b = a - b * go_quot a b"

subsection \<open>time.Time and time.Duration\<close>

text \<open>
  A \<^verbatim>\<open>time.Time\<close> is an instant, counted in nanoseconds since the Unix epoch, together
  with the location it is read in.  A \<^verbatim>\<open>Location\<close> is modelled by what its zone
  lookup returns for a number of Unix seconds: the offset from UTC in force there, in
  seconds east, and the interval of Unix seconds, its start included and its end
  excluded, in which that offset is in force.  The scanners take their clock from
  \<^verbatim>\<open>time.Now()\<close>, a time in the local zone of the machine; the tests inject a UTC time.

  \<^verbatim>\<open>t.AddDate(0, 0, days)\<close> is calendar arithmetic.  It reads the date and the clock of
  \<open>t\<close> on the wall of \<open>t\<close>'s location (\<^verbatim>\<open>t.Date()\<close>, \<^verbatim>\<open>t.Clock()\<close>), adds \<open>days\<close> to the
  day of the month, and hands the fields to \<^verbatim>\<open>time.Date\<close>.  \<^verbatim>\<open>time.Date\<close> counts the
  seconds of that wall-clock reading, as the days before the year, the days before the
  month and the day of the month less one, times 86400, plus the seconds of the clock,
  and looks the zone offset up to come back to an instant.  That count is the inverse
  of the reading, and the day of the month enters it as a number of days, so the
  seconds of the wall clock move by \<open>days * 86400\<close> whatever the calendar date is;
  \<open>wallSeconds\<close> and \<open>Date_of_wallSeconds\<close> are the two halves.  Go computes all of it in
  64-bit integers, that is modulo \<open>2 ^ 64\<close>; \<open>wrap64\<close> is the value an int64 takes.
  (Where \<^verbatim>\<open>int\<close> is 32 bits wide, no count of days it can hold takes a clock of this
  era out of the 64 bits: nothing wraps, in Go and in the model.)  A time holds its
  seconds as an int64 count from January 1 of year 1.

  A \<^verbatim>\<open>Duration\<close> is an int64 count of nanoseconds; \<^verbatim>\<open>Sub\<close> saturates.
\<close>

definition wrap64 :: "int \<Rightarrow> int" where
  \<comment> \<open>the int64 that is congruent to \<open>x\<close> modulo \<open>2 ^ 64\<close>\<close>
  "wrap64 x = (x + 2 ^ 63) mod 2 ^ 64 - 2 ^ 63"

definition alpha :: int where
  \<comment> \<open>the start of a zone that has always been in force\<close>
  "alpha = - (2 ^ 63)"

definition omega :: int where
  \<comment> \<open>the end of a zone that stays in force for ever\<close>
  "omega = 2 ^ 63 - 1"

record Location =
  lookup :: "int \<Rightarrow> int \<times> int \<times> int"

record Time =
  instant :: int
  loc :: Location

definition UTC :: Location where
  "UTC = \<lparr>lookup = (\<lambda>sec. (0, alpha, omega))\<rparr>"

definition FixedZone :: "int \<Rightarrow> Location" where
  \<comment> \<open>\<^verbatim>\<open>time.FixedZone(name, offset)\<close>\<close>
  "FixedZone offset = \<lparr>lookup = (\<lambda>sec. (offset, alpha, omega))\<rparr>"

definition Hour :: int where
  "Hour = 3600000000000"

definition unixToInternal :: int where
  \<comment> \<open>the seconds from January 1 of year 1 to the Unix epoch\<close>
  "unixToInternal = 62135596800"

definition unixSec :: "Time \<Rightarrow> int" where
  "unixSec t = wrap64 (instant t div 1000000000)"

definition Time_nsec :: "Time \<Rightarrow> int" where
  \<comment> \<open>\<^verbatim>\<open>t.nsec()\<close>\<close>
  "Time_nsec t = instant t mod 1000000000"

definition unixTime :: "int \<Rightarrow> int \<Rightarrow> Location \<Rightarrow> Time" where
  \<comment> \<open>the time of \<open>sec\<close> Unix seconds and \<open>nsec\<close> nanoseconds; its seconds from year 1
      are an int64\<close>
  "unixTime sec nsec l =
     \<lparr>instant = (wrap64 (sec + unixToInternal) - unixToInternal) * 1000000000 + nsec,
      loc = l\<rparr>"

definition wallSeconds :: "Time \<Rightarrow> int" where
  \<comment> \<open>the reading of the wall clock of \<open>t\<close>'s location, in seconds, that \<^verbatim>\<open>t.Date()\<close> and
      \<^verbatim>\<open>t.Clock()\<close> split into year, month, day, hour, minute and second\<close>
  "wallSeconds t =
     (let sec = unixSec t;
          (offset, zstart, zend) = lookup (loc t) sec
      in wrap64 (sec + offset))"

definition Date_of_wallSeconds :: "int \<Rightarrow> int \<Rightarrow> Location \<Rightarrow> Time" where
  \<comment> \<open>\<^verbatim>\<open>time.Date\<close> from the count \<open>unix\<close> of the seconds of the wall-clock reading on: the
      offset is looked up as if the reading were UTC, and once more when the instant it
      gives lies outside the interval in which that offset is in force\<close>
  "Date_of_wallSeconds unix nsec l =
     (let (offset, zstart, zend) = lookup l unix;
          unix1 =
            (if offset \<noteq> 0 then
               (let utc = wrap64 (unix - offset);
                    offset1 = (if utc < zstart \<or> utc \<ge> zend then fst (lookup l utc) else offset)
                in wrap64 (unix - offset1))
             else unix)
      in unixTime unix1 nsec l)"

definition AddDate_days :: "Time \<Rightarrow> int \<Rightarrow> Time" where
  \<comment> \<open>\<^verbatim>\<open>t.AddDate(0, 0, days)\<close>\<close>
  "AddDate_days t days =
     Date_of_wallSeconds (wrap64 (wallSeconds t + days * 86400)) (Time_nsec t) (loc t)"

definition Before :: "Time \<Rightarrow> Time \<Rightarrow> bool" where
  "Before t u = (instant t < instant u)"

definition zeroTime :: Time where
  \<comment> \<open>\<^verbatim>\<open>time.Time{}\<close>: January 1, year 1, 00:00:00 UTC\<close>
  "zeroTime = \<lparr>instant = - 62135596800 * 1000000000, loc = UTC\<rparr>"

definition IsZero :: "Time \<Rightarrow> bool" where
  "IsZero t = (instant t = instant zeroTime)"

definition maxDuration :: int where
  "maxDuration = 2 ^ 63 - 1"

definition minDuration :: int where
  "minDuration = - (2 ^ 63)"

definition Sub :: "Time \<Rightarrow> Time \<Rightarrow> int" where
  "Sub t u = max minDuration (min maxDuration (instant t - instant u))"

definition zoneOffset :: "Time \<Rightarrow> int" where
  \<comment> \<open>the offset in force at \<open>t\<close> in \<open>t\<close>'s location\<close>
  "zoneOffset t = fst (lookup (loc t) (unixSec t))"

definition Hours :: "int \<Rightarrow> float64" where
  "Hours d =
     (let hour = go_quot d Hour; nsec = go_rem d Hour
      in fadd (f64_of_int hour) (fdiv (f64_of_int nsec) (Finite (60 * 60 * 1000000000))))"


definition fixedOffset :: "Location \<Rightarrow> int \<Rightarrow> bool" where
  \<comment> \<open>one offset is in force at all times, as in UTC and in a \<^verbatim>\<open>time.FixedZone\<close>\<close>
  "fixedOffset l offset = (\<forall>sec. fst (lookup l sec) = offset)"


subsection \<open>Strings and pointers\<close>

definition Contains :: "string \<Rightarrow> string \<Rightarrow> bool" where
  \<comment> \<open>\<^verbatim>\<open>strings.Contains(s, substr)\<close>\<close>
  "Contains s substr = sublist substr s"

fun Join :: "string list \<Rightarrow> string \<Rightarrow> string" where
  \<comment> \<open>\<^verbatim>\<open>strings.Join(elems, sep)\<close>\<close>
  "Join [] sep = ''''"
| "Join [e] sep = e"
| "Join (e # es) sep = e @ sep @ Join es sep"

definition deref :: "string option \<Rightarrow> string" where
  "deref s = (case s of None \<Rightarrow> '''' | Some v \<Rightarrow> v)"

definition derefInt64 :: "int option \<Rightarrow> int" where
  "derefInt64 p = (case p of None \<Rightarrow> 0 | Some v \<Rightarrow> v)"


section \<open>internal/registry: findings and scan results\<close>

datatype Severity = SeverityCritical | SeverityHigh | SeverityMedium | SeverityLow

datatype ResourceType = ResourceImage | ResourceRepository

datatype FindingID =
    FindingUntaggedImage
  | FindingStaleImage
  | FindingLargeImage
  | FindingNoLifecyclePolicy
  | FindingVulnerableImage
  | FindingUnusedRepo
  | FindingMultiArchBloat

text \<open>
  A \<^verbatim>\<open>Message\<close> is a string literal or, when built by \<^verbatim>\<open>fmt.Sprintf\<close> with a
  numeric verb, the format and its arguments; the rendering of numbers is not expanded.
  The values of the \<^verbatim>\<open>Metadata\<close> map are tagged by their Go type; a time rendered with
  \<^verbatim>\<open>Format(time.RFC3339)\<close>, a text that shows the wall-clock reading to the second and
  the zone offset, is kept as the Unix seconds and the offset.  A \<^verbatim>\<open>map[string]any\<close> literal is
  the list of its entries, in the order of the source.  \<^verbatim>\<open>Severity\<close>, \<^verbatim>\<open>ResourceType\<close>
  and \<^verbatim>\<open>FindingID\<close> are the constants the package declares for these string types.
\<close>

datatype fmt_arg = ArgInt int | ArgFloat float64 | ArgString string

datatype message = Literal string | Sprintf string "fmt_arg list"

datatype meta_value =
    MetaInt int
  | MetaString string
  | MetaRFC3339 int int
  | MetaCounts "(string \<times> nat) list"

definition Format_RFC3339 :: "Time \<Rightarrow> meta_value" where
  \<comment> \<open>\<^verbatim>\<open>t.Format(time.RFC3339)\<close>\<close>
  "Format_RFC3339 t = MetaRFC3339 (unixSec t) (zoneOffset t)"

record Finding =
  ID :: FindingID
  Severity :: Severity
  ResourceType :: ResourceType
  ResourceID :: string
  ResourceName :: string
  Region :: string
  Message :: message
  EstimatedMonthlyWaste :: float64
  Metadata :: "(string \<times> meta_value) list"

record ScanResult =
  Findings :: "Finding list"
  Errors :: "string list"
  ResourcesScanned :: nat
  RepositoriesScanned :: nat

record ExcludeConfig =
  ResourceIDs :: "string \<rightharpoonup> bool"
  Tags :: "string \<rightharpoonup> string"

record ScanConfig =
  StaleDays :: int
  MaxSizeBytes :: int
  MinMonthlyCost :: float64
  Exclude :: ExcludeConfig

definition emptyResult :: ScanResult where
  \<comment> \<open>\<^verbatim>\<open>&registry.ScanResult{}\<close>\<close>
  "emptyResult = \<lparr>Findings = [], Errors = [], ResourcesScanned = 0, RepositoriesScanned = 0\<rparr>"

definition excluded :: "ScanConfig \<Rightarrow> string \<Rightarrow> bool" where
  \<comment> \<open>\<^verbatim>\<open>cfg.Exclude.ResourceIDs[id]\<close>: a key that is missing reads as false\<close>
  "excluded cfg rid = (case ResourceIDs (Exclude cfg) rid of None \<Rightarrow> False | Some b \<Rightarrow> b)"

section \<open>internal/pricing\<close>

definition rate_0_10 :: float64 where
  \<comment> \<open>the constant \<^verbatim>\<open>0.10\<close> as a float64\<close>
  "rate_0_10 = round64 (1 / 10)"

definition StorageCosts :: "string \<rightharpoonup> (string \<rightharpoonup> float64)" where
  "StorageCosts = map_of
     [(''ecr'', map_of [(''default'', rate_0_10)]),
      (''artifactregistry'', map_of
         [(''us'', rate_0_10),
          (''europe'', rate_0_10),
          (''asia'', rate_0_10),
          (''us-central1'', rate_0_10),
          (''us-east1'', rate_0_10),
          (''us-east4'', rate_0_10),
          (''us-west1'', rate_0_10),
          (''us-west2'', rate_0_10),
          (''europe-west1'', rate_0_10),
          (''europe-west2'', rate_0_10),
          (''europe-west4'', rate_0_10),
          (''asia-east1'', rate_0_10),
          (''asia-southeast1'', rate_0_10),
          (''default'', rate_0_10)])]"

definition index_costs :: "(string \<rightharpoonup> float64) \<Rightarrow> string \<Rightarrow> float64" where
  \<comment> \<open>\<^verbatim>\<open>m[k]\<close> on a \<^verbatim>\<open>map[string]float64\<close>: a missing key reads as \<open>0\<close>\<close>
  "index_costs m k = (case m k of None \<Rightarrow> Finite 0 | Some v \<Rightarrow> v)"

definition index_provider :: "(string \<rightharpoonup> (string \<rightharpoonup> float64)) \<Rightarrow> string \<Rightarrow> (string \<rightharpoonup> float64)" where
  \<comment> \<open>\<^verbatim>\<open>m[k]\<close> on the outer map: a missing key reads as the nil map\<close>
  "index_provider m k = (case m k of None \<Rightarrow> Map.empty | Some v \<Rightarrow> v)"

definition lookupCostPerGB_in ::
  "(string \<rightharpoonup> (string \<rightharpoonup> float64)) \<Rightarrow> string \<Rightarrow> string \<Rightarrow> float64" where
  \<comment> \<open>the body of \<^verbatim>\<open>lookupCostPerGB\<close>, over the value \<open>costs\<close> of the package variable
      \<^verbatim>\<open>StorageCosts\<close> that it reads\<close>
  "lookupCostPerGB_in costs provider rgn =
     (case costs provider of
        None \<Rightarrow> index_costs (index_provider costs ''ecr'') ''default''
      | Some providerCosts \<Rightarrow>
          (case providerCosts rgn of
             None \<Rightarrow> index_costs providerCosts ''default''
           | Some cost \<Rightarrow> cost))"

definition lookupCostPerGB :: "string \<Rightarrow> string \<Rightarrow> float64" where
  \<comment> \<open>the program never assigns to \<^verbatim>\<open>StorageCosts\<close>: the variable holds its initial value\<close>
  "lookupCostPerGB provider rgn = lookupCostPerGB_in StorageCosts provider rgn"

definition MonthlyStorageCost :: "string \<Rightarrow> string \<Rightarrow> int \<Rightarrow> float64" where
  "MonthlyStorageCost provider rgn sizeBytes =
     (let costPerGB = lookupCostPerGB provider rgn;
          sizeGB = fdiv (f64_of_int sizeBytes) (Finite (1024 * 1024 * 1024))
      in fmul sizeGB costPerGB)"

section \<open>internal/ecr: the ECR scanner\<close>

text \<open>
  The client is modelled by what each of its calls returns: the error's text
  (\<open>Inl\<close>) or the value (\<open>Inr\<close>).  \<^verbatim>\<open>ListRepositories\<close>, \<^verbatim>\<open>ListImages\<close> and
  \<^verbatim>\<open>HasLifecyclePolicy\<close> are the outcomes of the pagination wrappers of the client
  file; an image scan finding is its severity.  Progress callbacks and debug logging
  leave the scan result untouched and are not modelled.
\<close>

record ecr_Repository =
  RepositoryName :: "string option"

record ImageDetail =
  ImageDigest :: "string option"
  ImageSizeInBytes :: "int option"
  ImagePushedAt :: "Time option"
  LastRecordedPullTime :: "Time option"
  ImageTags :: "string list"
  ImageManifestMediaType :: "string option"

record DescribeImageScanFindingsOutput =
  ImageScanFindings :: "string list option"

record ECRAPI =
  ListRepositories :: "string + ecr_Repository list"
  ListImages :: "string \<Rightarrow> string + ImageDetail list"
  HasLifecyclePolicy :: "string \<Rightarrow> string + bool"
  DescribeImageScanFindings :: "string \<Rightarrow> string \<Rightarrow> string + DescribeImageScanFindingsOutput"

record ECRScanner =
  client :: ECRAPI
  region :: string
  includeScan :: bool
  now :: Time

definition lastActivityTime :: "ImageDetail \<Rightarrow> Time option" where
  "lastActivityTime img =
     (case LastRecordedPullTime img of
        Some t \<Rightarrow> Some t
      | None \<Rightarrow> ImagePushedAt img)"

definition ECRScanner_analyzeImage :: "ECRScanner \<Rightarrow> ScanConfig \<Rightarrow> string \<Rightarrow> ImageDetail \<Rightarrow> Finding list" where
  "ECRScanner_analyzeImage s cfg repoName img =
     (let digest = deref (ImageDigest img);
          imageID = repoName @ ''@'' @ digest;
          sizeBytes = derefInt64 (ImageSizeInBytes img);
          cost = MonthlyStorageCost ''ecr'' (region s) sizeBytes;
          sizeMB = fdiv (f64_of_int sizeBytes) (Finite (1024 * 1024));
          resourceName =
            (if length (ImageTags img) > 0
             then repoName @ '':'' @ Join (ImageTags img) '',''
             else '''');
          untagged =
            (if length (ImageTags img) = 0 then
               [\<lparr>ID = FindingUntaggedImage,
                 Severity = SeverityHigh,
                 ResourceType = ResourceImage,
                 ResourceID = imageID,
                 ResourceName = '''',
                 Region = region s,
                 Message = Sprintf ''Untagged image (%.0f MB)'' [ArgFloat sizeMB],
                 EstimatedMonthlyWaste = cost,
                 Metadata =
                   [(''size_bytes'', MetaInt sizeBytes),
                    (''digest'', MetaString digest)]\<rparr>]
             else []);
          stale =
            (if StaleDays cfg > 0 then
               (let staleThreshold = AddDate_days (now s) (- StaleDays cfg);
                    lastActivity = lastActivityTime img
                in case lastActivity of
                     None \<Rightarrow> []
                   | Some la \<Rightarrow>
                       if Before la staleThreshold then
                         (let daysSince = f64_to_int (fdiv (Hours (Sub (now s) la)) (Finite 24))
                          in [\<lparr>ID = FindingStaleImage,
                                Severity = SeverityHigh,
                                ResourceType = ResourceImage,
                                ResourceID = imageID,
                                ResourceName = resourceName,
                                Region = region s,
                                Message = Sprintf ''Not pulled in %d days (%.0f MB)''
                                            [ArgInt daysSince, ArgFloat sizeMB],
                                EstimatedMonthlyWaste = cost,
                                Metadata =
                                  [(''last_pull'', Format_RFC3339 la),
                                   (''days_stale'', MetaInt daysSince),
                                   (''size_bytes'', MetaInt sizeBytes),
                                   (''stale_days'', MetaInt (StaleDays cfg))]\<rparr>])
                       else [])
             else []);
          large =
            (if MaxSizeBytes cfg > 0 \<and> sizeBytes > MaxSizeBytes cfg then
               [\<lparr>ID = FindingLargeImage,
                 Severity = SeverityMedium,
                 ResourceType = ResourceImage,
                 ResourceID = imageID,
                 ResourceName = resourceName,
                 Region = region s,
                 Message = Sprintf ''Image is %.0f MB (threshold: %d MB)''
                             [ArgFloat sizeMB, ArgInt (go_quot (MaxSizeBytes cfg) (1024 * 1024))],
                 EstimatedMonthlyWaste = cost,
                 Metadata =
                   [(''size_bytes'', MetaInt sizeBytes),
                    (''threshold_bytes'', MetaInt (MaxSizeBytes cfg))]\<rparr>]
             else []);
          multiArch =
            (if ImageManifestMediaType img \<noteq> None
                \<and> Contains (deref (ImageManifestMediaType img)) ''manifest.list'' then
               (if StaleDays cfg > 0 then
                  (let lastActivity = lastActivityTime img;
                       staleThreshold = AddDate_days (now s) (- StaleDays cfg)
                   in case lastActivity of
                        None \<Rightarrow> []
                      | Some la \<Rightarrow>
                          if Before la staleThreshold then
                            [\<lparr>ID = FindingMultiArchBloat,
                              Severity = SeverityLow,
                              ResourceType = ResourceImage,
                              ResourceID = imageID,
                              ResourceName = resourceName,
                              Region = region s,
                              Message = Sprintf ''Stale multi-architecture image (%.0f MB)''
                                          [ArgFloat sizeMB],
                              EstimatedMonthlyWaste = cost,
                              Metadata =
                                [(''size_bytes'', MetaInt sizeBytes),
                                 (''media_type'', MetaString (deref (ImageManifestMediaType img)))]\<rparr>]
                          else [])
                else [])
             else [])
      in untagged @ stale @ large @ multiArch)"

fun countStale :: "Finding list \<Rightarrow> nat \<Rightarrow> nat" where
  \<comment> \<open>the loop over one image's findings that counts the stale ones\<close>
  "countStale [] staleCount = staleCount"
| "countStale (f # fs) staleCount =
     countStale fs (if ID f = FindingStaleImage then staleCount + 1 else staleCount)"

fun ECRScanner_scanImages ::
  "ECRScanner \<Rightarrow> ScanConfig \<Rightarrow> string \<Rightarrow> ImageDetail list \<Rightarrow> ScanResult \<times> nat \<Rightarrow> ScanResult \<times> nat" where
  \<comment> \<open>the loop of \<^verbatim>\<open>scanRepository\<close> over the images; the state is the result and \<^verbatim>\<open>staleCount\<close>\<close>
  "ECRScanner_scanImages s cfg repoName [] (result, staleCount) = (result, staleCount)"
| "ECRScanner_scanImages s cfg repoName (img # images) (result, staleCount) =
     (let result1 = result\<lparr>ResourcesScanned := ResourcesScanned result + 1\<rparr>;
          findings = ECRScanner_analyzeImage s cfg repoName img;
          result2 = result1\<lparr>Findings := Findings result1 @ findings\<rparr>
      in ECRScanner_scanImages s cfg repoName images (result2, countStale findings staleCount))"

fun ECRScanner_totalWaste :: "ECRScanner \<Rightarrow> ImageDetail list \<Rightarrow> float64 \<Rightarrow> float64" where
  \<comment> \<open>the loop that adds every image's monthly storage cost to \<^verbatim>\<open>totalWaste\<close>\<close>
  "ECRScanner_totalWaste s [] totalWaste = totalWaste"
| "ECRScanner_totalWaste s (img # images) totalWaste =
     ECRScanner_totalWaste s images
       (fadd totalWaste (MonthlyStorageCost ''ecr'' (region s) (derefInt64 (ImageSizeInBytes img))))"

definition em_dash :: string where
  \<comment> \<open>the UTF-8 bytes of the dash in the lifecycle message\<close>
  "em_dash = [CHR 0xE2, CHR 0x80, CHR 0x94]"

definition ECRScanner_scanRepository :: "ECRScanner \<Rightarrow> ScanConfig \<Rightarrow> ecr_Repository \<Rightarrow> ScanResult \<Rightarrow> ScanResult" where
  "ECRScanner_scanRepository s cfg repo result =
     (let repoName = deref (RepositoryName repo)
      in case ListImages (client s) repoName of
           Inl err \<Rightarrow>
             result\<lparr>Errors := Errors result @ [region s @ ''/'' @ repoName @ '': '' @ err]\<rparr>
         | Inr images \<Rightarrow>
             if length images = 0 then
               result\<lparr>Findings := Findings result @
                 [\<lparr>ID = FindingUnusedRepo,
                   Severity = SeverityLow,
                   ResourceType = ResourceRepository,
                   ResourceID = repoName,
                   ResourceName = '''',
                   Region = region s,
                   Message = Literal ''Repository has no images'',
                   EstimatedMonthlyWaste = Finite 0,
                   Metadata = []\<rparr>]\<rparr>
             else
               (let result1 =
                      (case HasLifecyclePolicy (client s) repoName of
                         Inl err \<Rightarrow>
                           result\<lparr>Errors := Errors result @
                             [region s @ ''/'' @ repoName @ '' lifecycle: '' @ err]\<rparr>
                       | Inr hasPolicy \<Rightarrow>
                           if \<not> hasPolicy then
                             result\<lparr>Findings := Findings result @
                               [\<lparr>ID = FindingNoLifecyclePolicy,
                                 Severity = SeverityMedium,
                                 ResourceType = ResourceRepository,
                                 ResourceID = repoName,
                                 ResourceName = '''',
                                 Region = region s,
                                 Message = Literal
                                   (''No lifecycle policy configured '' @ em_dash @
                                    '' images accumulate indefinitely''),
                                 EstimatedMonthlyWaste = Finite 0,
                                 Metadata = []\<rparr>]\<rparr>
                           else result);
                    (result2, staleCount) = ECRScanner_scanImages s cfg repoName images (result1, 0)
                in if staleCount = length images \<and> length images > 0 then
                     (let totalWaste = ECRScanner_totalWaste s images (Finite 0)
                      in result2\<lparr>Findings := Findings result2 @
                           [\<lparr>ID = FindingUnusedRepo,
                             Severity = SeverityLow,
                             ResourceType = ResourceRepository,
                             ResourceID = repoName,
                             ResourceName = '''',
                             Region = region s,
                             Message = Sprintf ''All %d images are stale''
                                         [ArgInt (int (length images))],
                             EstimatedMonthlyWaste = totalWaste,
                             Metadata = [(''image_count'', MetaInt (int (length images)))]\<rparr>]\<rparr>)
                   else result2))"

fun ECRScanner_scanRepos :: "ECRScanner \<Rightarrow> ScanConfig \<Rightarrow> ecr_Repository list \<Rightarrow> ScanResult \<Rightarrow> ScanResult" where
  \<comment> \<open>the loop of \<^verbatim>\<open>Scan\<close> over the repositories\<close>
  "ECRScanner_scanRepos s cfg [] result = result"
| "ECRScanner_scanRepos s cfg (repo # repos) result =
     (let repoName = deref (RepositoryName repo)
      in if excluded cfg repoName then ECRScanner_scanRepos s cfg repos result
         else ECRScanner_scanRepos s cfg repos (ECRScanner_scanRepository s cfg repo result))"

definition ECRScanner_Scan :: "ECRScanner \<Rightarrow> ScanConfig \<Rightarrow> ScanResult" where
  "ECRScanner_Scan s cfg =
     (let result = emptyResult
      in case ListRepositories (client s) of
           Inl err \<Rightarrow> result\<lparr>Errors := Errors result @ [region s @ '': '' @ err]\<rparr>
         | Inr repos \<Rightarrow>
             ECRScanner_scanRepos s cfg repos (result\<lparr>RepositoriesScanned := length repos\<rparr>))"

fun count_severity :: "string list \<Rightarrow> string \<Rightarrow> nat" where
  \<comment> \<open>\<^verbatim>\<open>counts[k]\<close> after the loop \<^verbatim>\<open>counts[string(f.Severity)]++\<close> over the findings\<close>
  "count_severity [] k = 0"
| "count_severity (f # fs) k = (if f = k then 1 else 0) + count_severity fs k"

definition ECRScanner_ScanVulnerabilities ::
  "ECRScanner \<Rightarrow> string \<Rightarrow> string \<Rightarrow> Finding list \<times> string option" where
  \<comment> \<open>the pair returned: the findings and the error (\<open>None\<close> for \<^verbatim>\<open>nil\<close>)\<close>
  "ECRScanner_ScanVulnerabilities s repoName digest =
     (case DescribeImageScanFindings (client s) repoName digest of
        Inl err \<Rightarrow> ([], None)
      | Inr out \<Rightarrow>
          (case ImageScanFindings out of
             None \<Rightarrow> ([], None)
           | Some fs \<Rightarrow>
               if length fs = 0 then ([], None)
               else
                 (let critCount = count_severity fs ''CRITICAL'';
                      highCount = count_severity fs ''HIGH'';
                      total = length fs
                  in if critCount = 0 \<and> highCount = 0 then ([], None)
                     else
                       (let imageID = repoName @ ''@'' @ digest
                        in ([\<lparr>ID = FindingVulnerableImage,
                               Severity = SeverityCritical,
                               ResourceType = ResourceImage,
                               ResourceID = imageID,
                               ResourceName = '''',
                               Region = region s,
                               Message = Sprintf ''%d vulnerabilities (%d critical, %d high)''
                                 [ArgInt (int total), ArgInt (int critCount), ArgInt (int highCount)],
                               EstimatedMonthlyWaste = Finite 0,
                               Metadata =
                                 [(''total_findings'', MetaInt (int total)),
                                  (''critical_count'', MetaInt (int critCount)),
                                  (''high_count'', MetaInt (int highCount)),
                                  (''severity_counts'',
                                     MetaCounts (map (\<lambda>k. (k, count_severity fs k)) (remdups fs)))]\<rparr>],
                            None)))))"

section \<open>internal/artifactregistry: the Artifact Registry scanner\<close>

record Repository =
  Name :: string
  Location :: string
  RepoID :: string
  Format :: string

record DockerImage =
  Name :: string
  URI :: string
  Tags :: "string list"
  SizeBytes :: int
  UploadTime :: Time
  MediaType :: string
  RepositoryID :: string

record ARAPI =
  ListRepositories :: "string \<Rightarrow> string \<Rightarrow> string + Repository list"
  ListDockerImages :: "string \<Rightarrow> string + DockerImage list"

record ARScanner =
  client :: ARAPI
  project :: string
  locations :: "string list"
  now :: Time

definition ARScanner_analyzeImage :: "ARScanner \<Rightarrow> ScanConfig \<Rightarrow> Repository \<Rightarrow> DockerImage \<Rightarrow> Finding list" where
  "ARScanner_analyzeImage s cfg repo img =
     (let imageID = (if URI img = '''' then DockerImage.Name img else URI img);
          sizeBytes = SizeBytes img;
          cost = MonthlyStorageCost ''artifactregistry'' (Location repo) sizeBytes;
          sizeMB = fdiv (f64_of_int sizeBytes) (Finite (1024 * 1024));
          resourceName =
            (if length (Tags img) > 0
             then RepoID repo @ '':'' @ Join (Tags img) '',''
             else '''');
          untagged =
            (if length (Tags img) = 0 then
               [\<lparr>ID = FindingUntaggedImage,
                 Severity = SeverityHigh,
                 ResourceType = ResourceImage,
                 ResourceID = imageID,
                 ResourceName = '''',
                 Region = Location repo,
                 Message = Sprintf ''Untagged image (%.0f MB)'' [ArgFloat sizeMB],
                 EstimatedMonthlyWaste = cost,
                 Metadata =
                   [(''size_bytes'', MetaInt sizeBytes),
                    (''uri'', MetaString (URI img))]\<rparr>]
             else []);
          stale =
            (if StaleDays cfg > 0 \<and> \<not> IsZero (UploadTime img) then
               (let staleThreshold = AddDate_days (ARScanner.now s) (- StaleDays cfg)
                in if Before (UploadTime img) staleThreshold then
                     (let daysSince =
                            f64_to_int (fdiv (Hours (Sub (ARScanner.now s) (UploadTime img))) (Finite 24))
                      in [\<lparr>ID = FindingStaleImage,
                            Severity = SeverityHigh,
                            ResourceType = ResourceImage,
                            ResourceID = imageID,
                            ResourceName = resourceName,
                            Region = Location repo,
                            Message = Sprintf
                              ''Uploaded %d days ago, no pull data available (%.0f MB)''
                              [ArgInt daysSince, ArgFloat sizeMB],
                            EstimatedMonthlyWaste = cost,
                            Metadata =
                              [(''upload_time'', Format_RFC3339 (UploadTime img)),
                               (''days_stale'', MetaInt daysSince),
                               (''size_bytes'', MetaInt sizeBytes),
                               (''stale_days'', MetaInt (StaleDays cfg)),
                               (''note'', MetaString
                                  ''GCP AR has no pull timestamp; staleness based on upload time'')]\<rparr>])
                   else [])
             else []);
          large =
            (if MaxSizeBytes cfg > 0 \<and> sizeBytes > MaxSizeBytes cfg then
               [\<lparr>ID = FindingLargeImage,
                 Severity = SeverityMedium,
                 ResourceType = ResourceImage,
                 ResourceID = imageID,
                 ResourceName = resourceName,
                 Region = Location repo,
                 Message = Sprintf ''Image is %.0f MB (threshold: %d MB)''
                             [ArgFloat sizeMB, ArgInt (go_quot (MaxSizeBytes cfg) (1024 * 1024))],
                 EstimatedMonthlyWaste = cost,
                 Metadata =
                   [(''size_bytes'', MetaInt sizeBytes),
                    (''threshold_bytes'', MetaInt (MaxSizeBytes cfg))]\<rparr>]
             else []);
          multiArch =
            (if Contains (MediaType img) ''manifest.list'' \<or> Contains (MediaType img) ''image.index'' then
               (if StaleDays cfg > 0 \<and> \<not> IsZero (UploadTime img) then
                  (let staleThreshold = AddDate_days (ARScanner.now s) (- StaleDays cfg)
                   in if Before (UploadTime img) staleThreshold then
                        [\<lparr>ID = FindingMultiArchBloat,
                          Severity = SeverityLow,
                          ResourceType = ResourceImage,
                          ResourceID = imageID,
                          ResourceName = resourceName,
                          Region = Location repo,
                          Message = Sprintf ''Stale multi-architecture image (%.0f MB)''
                                      [ArgFloat sizeMB],
                          EstimatedMonthlyWaste = cost,
                          Metadata =
                            [(''size_bytes'', MetaInt sizeBytes),
                             (''media_type'', MetaString (MediaType img))]\<rparr>]
                      else [])
                else [])
             else [])
      in untagged @ stale @ large @ multiArch)"

fun ARScanner_scanImages ::
  "ARScanner \<Rightarrow> ScanConfig \<Rightarrow> Repository \<Rightarrow> DockerImage list \<Rightarrow> ScanResult \<times> nat \<Rightarrow> ScanResult \<times> nat" where
  \<comment> \<open>the loop of \<^verbatim>\<open>scanRepository\<close> over the images; the state is the result and \<^verbatim>\<open>staleCount\<close>\<close>
  "ARScanner_scanImages s cfg repo [] (result, staleCount) = (result, staleCount)"
| "ARScanner_scanImages s cfg repo (img # images) (result, staleCount) =
     (let result1 = result\<lparr>ResourcesScanned := ResourcesScanned result + 1\<rparr>;
          findings = ARScanner_analyzeImage s cfg repo img;
          result2 = result1\<lparr>Findings := Findings result1 @ findings\<rparr>
      in ARScanner_scanImages s cfg repo images (result2, countStale findings staleCount))"

fun ARScanner_totalWaste :: "Repository \<Rightarrow> DockerImage list \<Rightarrow> float64 \<Rightarrow> float64" where
  \<comment> \<open>the loop that adds every image's monthly storage cost to \<^verbatim>\<open>totalWaste\<close>\<close>
  "ARScanner_totalWaste repo [] totalWaste = totalWaste"
| "ARScanner_totalWaste repo (img # images) totalWaste =
     ARScanner_totalWaste repo images
       (fadd totalWaste (MonthlyStorageCost ''artifactregistry'' (Location repo) (SizeBytes img)))"

definition ARScanner_scanRepository :: "ARScanner \<Rightarrow> ScanConfig \<Rightarrow> Repository \<Rightarrow> ScanResult \<Rightarrow> ScanResult" where
  "ARScanner_scanRepository s cfg repo result =
     (case ListDockerImages (ARScanner.client s) (Repository.Name repo) of
        Inl err \<Rightarrow>
          result\<lparr>Errors := Errors result @ [Location repo @ ''/'' @ RepoID repo @ '': '' @ err]\<rparr>
      | Inr images \<Rightarrow>
          if length images = 0 then
            result\<lparr>Findings := Findings result @
              [\<lparr>ID = FindingUnusedRepo,
                Severity = SeverityLow,
                ResourceType = ResourceRepository,
                ResourceID = RepoID repo,
                ResourceName = '''',
                Region = Location repo,
                Message = Literal ''Repository has no Docker images'',
                EstimatedMonthlyWaste = Finite 0,
                Metadata = []\<rparr>]\<rparr>
          else
            (let (result2, staleCount) = ARScanner_scanImages s cfg repo images (result, 0)
             in if staleCount = length images \<and> length images > 0 then
                  (let totalWaste = ARScanner_totalWaste repo images (Finite 0)
                   in result2\<lparr>Findings := Findings result2 @
                        [\<lparr>ID = FindingUnusedRepo,
                          Severity = SeverityLow,
                          ResourceType = ResourceRepository,
                          ResourceID = RepoID repo,
                          ResourceName = '''',
                          Region = Location repo,
                          Message = Sprintf ''All %d images are stale''
                                      [ArgInt (int (length images))],
                          EstimatedMonthlyWaste = totalWaste,
                          Metadata = [(''image_count'', MetaInt (int (length images)))]\<rparr>]\<rparr>)
                else result2))"

fun ARScanner_scanRepos :: "ARScanner \<Rightarrow> ScanConfig \<Rightarrow> Repository list \<Rightarrow> ScanResult \<Rightarrow> ScanResult" where
  \<comment> \<open>the inner loop of \<^verbatim>\<open>Scan\<close>, over the repositories of one location\<close>
  "ARScanner_scanRepos s cfg [] result = result"
| "ARScanner_scanRepos s cfg (repo # repos) result =
     (if excluded cfg (RepoID repo) then ARScanner_scanRepos s cfg repos result
      else ARScanner_scanRepos s cfg repos (ARScanner_scanRepository s cfg repo result))"

definition ARScanner_scanLocation :: "ARScanner \<Rightarrow> ScanConfig \<Rightarrow> string \<Rightarrow> ScanResult \<Rightarrow> ScanResult" where
  \<comment> \<open>the body of the outer loop of \<^verbatim>\<open>Scan\<close>, for one location\<close>
  "ARScanner_scanLocation s cfg location result =
     (case ARAPI.ListRepositories (ARScanner.client s) (project s) location of
        Inl err \<Rightarrow> result\<lparr>Errors := Errors result @ [location @ '': '' @ err]\<rparr>
      | Inr repos \<Rightarrow>
          ARScanner_scanRepos s cfg repos
            (result\<lparr>RepositoriesScanned := RepositoriesScanned result + length repos\<rparr>))"

fun ARScanner_scanLocations :: "ARScanner \<Rightarrow> ScanConfig \<Rightarrow> string list \<Rightarrow> ScanResult \<Rightarrow> ScanResult" where
  \<comment> \<open>the outer loop of \<^verbatim>\<open>Scan\<close>, over the locations\<close>
  "ARScanner_scanLocations s cfg [] result = result"
| "ARScanner_scanLocations s cfg (location # rest) result =
     ARScanner_scanLocations s cfg rest (ARScanner_scanLocation s cfg location result)"

definition ARScanner_Scan :: "ARScanner \<Rightarrow> ScanConfig \<Rightarrow> ScanResult" where
  "ARScanner_Scan s cfg = ARScanner_scanLocations s cfg (locations s) emptyResult"

section \<open>internal/analyzer\<close>

definition Severity_string :: "Severity \<Rightarrow> string" where
  "Severity_string v =
     (case v of
        SeverityCritical \<Rightarrow> ''critical''
      | SeverityHigh \<Rightarrow> ''high''
      | SeverityMedium \<Rightarrow> ''medium''
      | SeverityLow \<Rightarrow> ''low'')"

definition ResourceType_string :: "ResourceType \<Rightarrow> string" where
  "ResourceType_string t =
     (case t of ResourceImage \<Rightarrow> ''image'' | ResourceRepository \<Rightarrow> ''repository'')"

record Summary =
  TotalResourcesScanned :: nat
  TotalFindings :: nat
  TotalMonthlyWaste :: float64
  BySeverity :: "string \<rightharpoonup> nat"
  ByResourceType :: "string \<rightharpoonup> nat"
  RepositoriesScanned :: nat

record AnalysisResult =
  Findings :: "Finding list"
  Summary :: Summary
  Errors :: "string list"

record AnalyzerConfig =
  MinMonthlyCost :: float64

definition increment :: "(string \<rightharpoonup> nat) \<Rightarrow> string \<Rightarrow> (string \<rightharpoonup> nat)" where
  \<comment> \<open>\<^verbatim>\<open>m[k]++\<close> on a \<^verbatim>\<open>map[string]int\<close>: a missing key counts from \<open>0\<close>\<close>
  "increment m k = m(k \<mapsto> (case m k of None \<Rightarrow> 0 | Some n \<Rightarrow> n) + 1)"

fun filterFindings :: "Finding list \<Rightarrow> AnalyzerConfig \<Rightarrow> Finding list \<Rightarrow> Finding list" where
  \<comment> \<open>the first loop of \<^verbatim>\<open>Analyze\<close>; the state is \<^verbatim>\<open>filtered\<close>\<close>
  "filterFindings [] cfg filtered = filtered"
| "filterFindings (f # fs) cfg filtered =
     filterFindings fs cfg
       (if fge (EstimatedMonthlyWaste f) (AnalyzerConfig.MinMonthlyCost cfg)
        then filtered @ [f] else filtered)"

fun summarize :: "Finding list \<Rightarrow> Summary \<Rightarrow> Summary" where
  \<comment> \<open>the second loop of \<^verbatim>\<open>Analyze\<close>; the state is \<^verbatim>\<open>summary\<close>\<close>
  "summarize [] summary = summary"
| "summarize (f # fs) summary =
     summarize fs
       (summary\<lparr>TotalMonthlyWaste := fadd (TotalMonthlyWaste summary) (EstimatedMonthlyWaste f),
                 BySeverity := increment (BySeverity summary) (Severity_string (Severity f)),
                 ByResourceType :=
                   increment (ByResourceType summary) (ResourceType_string (ResourceType f))\<rparr>)"

definition Analyze :: "ScanResult \<Rightarrow> AnalyzerConfig \<Rightarrow> AnalysisResult" where
  "Analyze result cfg =
     (let filtered = filterFindings (ScanResult.Findings result) cfg [];
          summary =
            \<lparr>TotalResourcesScanned = ResourcesScanned result,
             TotalFindings = length filtered,
             TotalMonthlyWaste = Finite 0,
             BySeverity = Map.empty,
             ByResourceType = Map.empty,
             RepositoriesScanned = ScanResult.RepositoriesScanned result\<rparr>
      in \<lparr>Findings = filtered,
          Summary = summarize filtered summary,
          Errors = ScanResult.Errors result\<rparr>)"

section \<open>The rate lookup as the specification words it\<close>

text \<open>
  The specification has one table of per-GB rates keyed by the pair of a provider and a
  region, and one global default rate.  The table of the code is nested, provider first;
  the rate the code falls back to for a provider it does not know is the default rate
  of ECR.
\<close>

definition spec_rate_table ::
  "(string \<rightharpoonup> (string \<rightharpoonup> float64)) \<Rightarrow> string \<times> string \<rightharpoonup> float64" where
  \<comment> \<open>the per-GB rates of \<open>costs\<close> keyed by (provider, region)\<close>
  "spec_rate_table costs key =
     (case costs (fst key) of
        None \<Rightarrow> None
      | Some providerCosts \<Rightarrow> providerCosts (snd key))"

definition spec_global_default :: "(string \<rightharpoonup> (string \<rightharpoonup> float64)) \<Rightarrow> float64" where
  "spec_global_default costs = index_costs (index_provider costs ''ecr'') ''default''"

definition spec_rate ::
  "(string \<rightharpoonup> (string \<rightharpoonup> float64)) \<Rightarrow> string \<Rightarrow> string \<Rightarrow> float64" where
  \<comment> \<open>first the exact (provider, region), then (provider, "default"), then the global default\<close>
  "spec_rate costs provider rgn =
     (case spec_rate_table costs (provider, rgn) of
        Some rate \<Rightarrow> rate
      | None \<Rightarrow>
          (case spec_rate_table costs (provider, ''default'') of
             Some rate \<Rightarrow> rate
           | None \<Rightarrow> spec_global_default costs))"

definition has_defaults :: "(string \<rightharpoonup> (string \<rightharpoonup> float64)) \<Rightarrow> bool" where
  \<comment> \<open>every provider of the table has a rate under the key "default"\<close>
  "has_defaults costs =
     (\<forall>provider providerCosts. costs provider = Some providerCosts \<longrightarrow>
        providerCosts ''default'' \<noteq> None)"

section \<open>Fixtures of the repository's tests\<close>

text \<open>
  The values and helpers the scanners' tests build their inputs from; the examples
  below run the model on them.
\<close>

definition test_now :: Time where
  \<comment> \<open>\<^verbatim>\<open>time.Date(2026, 2, 28, 12, 0, 0, 0, time.UTC)\<close>\<close>
  "test_now = \<lparr>instant = 1772280000 * 1000000000, loc = UTC\<rparr>"

definition recent :: Time where
  "recent = AddDate_days test_now (- 10)"

definition stale120 :: Time where
  "stale120 = AddDate_days test_now (- 120)"

definition stale200 :: Time where
  "stale200 = AddDate_days test_now (- 200)"

definition oneGB :: int where
  "oneGB = 1073741824"

definition twoGB :: int where
  "twoGB = 2 * 1073741824"

definition halfGB :: int where
  "halfGB = 536870912"

definition hundredMB :: int where
  "hundredMB = 104857600"

definition defaultCfg :: ScanConfig where
  "defaultCfg =
     \<lparr>StaleDays = 90,
      MaxSizeBytes = oneGB,
      MinMonthlyCost = Finite 0,
      Exclude = \<lparr>ResourceIDs = Map.empty, ExcludeConfig.Tags = Map.empty\<rparr>\<rparr>"

definition ecr_makeImage :: "string \<Rightarrow> string list \<Rightarrow> int \<Rightarrow> Time \<Rightarrow> Time \<Rightarrow> ImageDetail" where
  "ecr_makeImage digest tags sizeBytes pushedAt lastPull =
     \<lparr>ImageDigest = Some digest,
      ImageSizeInBytes = Some sizeBytes,
      ImagePushedAt = Some pushedAt,
      LastRecordedPullTime = (if IsZero lastPull then None else Some lastPull),
      ImageTags = tags,
      ImageManifestMediaType = None\<rparr>"

definition ecr_makeRepo :: "string \<Rightarrow> ecr_Repository" where
  "ecr_makeRepo name = \<lparr>RepositoryName = Some name\<rparr>"

definition ecr_mockClient ::
  "ecr_Repository list \<Rightarrow> (string \<rightharpoonup> ImageDetail list) \<Rightarrow> (string \<rightharpoonup> bool) \<Rightarrow> ECRAPI" where
  \<comment> \<open>the mock client with no error set, seen through the pagination wrappers\<close>
  "ecr_mockClient repos images lifecycleRepos =
     \<lparr>ECRAPI.ListRepositories = Inr repos,
      ListImages = (\<lambda>repo. Inr (case images repo of None \<Rightarrow> [] | Some l \<Rightarrow> l)),
      HasLifecyclePolicy = (\<lambda>repo. Inr (case lifecycleRepos repo of None \<Rightarrow> False | Some b \<Rightarrow> b)),
      DescribeImageScanFindings = (\<lambda>repo digest. Inr \<lparr>ImageScanFindings = None\<rparr>)\<rparr>"

definition ecr_newTestScanner :: "ECRAPI \<Rightarrow> ECRScanner" where
  "ecr_newTestScanner c =
     \<lparr>ECRScanner.client = c, region = ''us-east-1'', includeScan = False,
      ECRScanner.now = test_now\<rparr>"

definition ar_makeRepo :: "string \<Rightarrow> string \<Rightarrow> string \<Rightarrow> Repository" where
  "ar_makeRepo name location repoID =
     \<lparr>Repository.Name = name, Location = location, RepoID = repoID, Format = ''DOCKER''\<rparr>"

definition ar_makeImage :: "string \<Rightarrow> string list \<Rightarrow> int \<Rightarrow> Time \<Rightarrow> string \<Rightarrow> DockerImage" where
  "ar_makeImage uri tags sizeBytes uploadTime mediaType =
     \<lparr>DockerImage.Name = ''projects/p/locations/l/repositories/r/dockerImages/img'',
      URI = uri,
      Tags = tags,
      SizeBytes = sizeBytes,
      UploadTime = uploadTime,
      MediaType = mediaType,
      RepositoryID = ''''\<rparr>"

definition ar_mockClient ::
  "(string \<rightharpoonup> Repository list) \<Rightarrow> (string \<rightharpoonup> DockerImage list) \<Rightarrow>
   (string \<rightharpoonup> string) \<Rightarrow> (string \<rightharpoonup> string) \<Rightarrow> ARAPI" where
  "ar_mockClient repos images listRepoErr listImagesErr =
     \<lparr>ARAPI.ListRepositories =
        (\<lambda>project location.
           case listRepoErr (project @ ''/'' @ location) of
             Some err \<Rightarrow> Inl err
           | None \<Rightarrow> Inr (case repos (project @ ''/'' @ location) of None \<Rightarrow> [] | Some l \<Rightarrow> l)),
      ListDockerImages =
        (\<lambda>parent.
           case listImagesErr parent of
             Some err \<Rightarrow> Inl err
           | None \<Rightarrow> Inr (case images parent of None \<Rightarrow> [] | Some l \<Rightarrow> l))\<rparr>"

definition ar_newTestScanner :: "ARAPI \<Rightarrow> ARScanner" where
  "ar_newTestScanner c =
     \<lparr>ARScanner.client = c, project = ''my-project'', locations = [''us-central1''],
      ARScanner.now = test_now\<rparr>"

definition exclude_cfg :: ScanConfig where
  \<comment> \<open>the configuration of \<^verbatim>\<open>TestScanExcludeRepo\<close>\<close>
  "exclude_cfg =
     defaultCfg\<lparr>Exclude :=
       \<lparr>ResourceIDs = [''excluded'' \<mapsto> True], ExcludeConfig.Tags = Map.empty\<rparr>\<rparr>"

definition ecr_exclude_scanner :: ECRScanner where
  \<comment> \<open>the scanner of \<^verbatim>\<open>TestScanExcludeRepo\<close> (ECR)\<close>
  "ecr_exclude_scanner =
     ecr_newTestScanner
       (ecr_mockClient [ecr_makeRepo ''excluded'', ecr_makeRepo ''included'']
          [''included'' \<mapsto> [ecr_makeImage ''sha256:iii'' [''latest''] halfGB recent recent]]
          Map.empty)"

definition ar_exclude_scanner :: ARScanner where
  \<comment> \<open>the scanner of \<^verbatim>\<open>TestScanExcludeRepo\<close> (Artifact Registry)\<close>
  "ar_exclude_scanner =
     ar_newTestScanner
       (ar_mockClient
          [''my-project/us-central1'' \<mapsto>
             [ar_makeRepo ''projects/my-project/locations/us-central1/repositories/excluded''
                ''us-central1'' ''excluded'',
              ar_makeRepo ''projects/my-project/locations/us-central1/repositories/included''
                ''us-central1'' ''included'']]
          [''projects/my-project/locations/us-central1/repositories/included'' \<mapsto>
             [ar_makeImage ''uri'' [''latest''] hundredMB recent '''']]
          Map.empty Map.empty)"

definition ecr_listing_fails_scanner :: ECRScanner where
  \<comment> \<open>the scanner of \<^verbatim>\<open>TestScanDescribeRepositoriesError\<close>\<close>
  "ecr_listing_fails_scanner =
     ecr_newTestScanner
       ((ecr_mockClient [] Map.empty Map.empty)
          \<lparr>ECRAPI.ListRepositories := Inl ''describe repositories: access denied''\<rparr>)"

definition ar_listing_fails_scanner :: ARScanner where
  \<comment> \<open>the scanner of \<^verbatim>\<open>TestScanListReposError\<close>\<close>
  "ar_listing_fails_scanner =
     ar_newTestScanner
       (ar_mockClient Map.empty Map.empty
          [''my-project/us-central1'' \<mapsto> ''permission denied''] Map.empty)"

definition ar_two_locations_scanner :: ARScanner where
  \<comment> \<open>two locations: the listing of the first fails as in \<^verbatim>\<open>TestScanListReposError\<close>,
      the second holds the empty repository of \<^verbatim>\<open>TestScanEmptyRepo\<close>\<close>
  "ar_two_locations_scanner =
     (ar_newTestScanner
        (ar_mockClient
           [''my-project/europe-west1'' \<mapsto>
              [ar_makeRepo ''projects/my-project/locations/europe-west1/repositories/empty-repo''
                 ''europe-west1'' ''empty-repo'']]
           [''projects/my-project/locations/europe-west1/repositories/empty-repo'' \<mapsto> []]
           [''my-project/us-central1'' \<mapsto> ''permission denied''] Map.empty))
     \<lparr>locations := [''us-central1'', ''europe-west1'']\<rparr>"

definition ar_three_locations_scanner :: ARScanner where
  \<comment> \<open>three locations: the listing of the second fails as in \<^verbatim>\<open>TestScanListReposError\<close>,
      the first and the third hold an empty repository each\<close>
  "ar_three_locations_scanner =
     (ar_newTestScanner
        (ar_mockClient
           [''my-project/europe-west1'' \<mapsto>
              [ar_makeRepo ''projects/my-project/locations/europe-west1/repositories/empty-repo''
                 ''europe-west1'' ''empty-repo''],
            ''my-project/asia-east1'' \<mapsto>
              [ar_makeRepo ''projects/my-project/locations/asia-east1/repositories/other-repo''
                 ''asia-east1'' ''other-repo'']]
           [''projects/my-project/locations/europe-west1/repositories/empty-repo'' \<mapsto> [],
            ''projects/my-project/locations/asia-east1/repositories/other-repo'' \<mapsto> []]
           [''my-project/us-central1'' \<mapsto> ''permission denied''] Map.empty))
     \<lparr>locations := [''europe-west1'', ''us-central1'', ''asia-east1'']\<rparr>"

definition ecr_images_fail_scanner :: ECRScanner where
  \<comment> \<open>the scanner of \<^verbatim>\<open>TestScanDescribeImagesError\<close>\<close>
  "ecr_images_fail_scanner =
     ecr_newTestScanner
       ((ecr_mockClient [ecr_makeRepo ''broken-repo''] Map.empty Map.empty)
          \<lparr>ListImages := (\<lambda>repo.
             if repo = ''broken-repo'' then Inl ''describe images for broken-repo: throttled''
             else Inr [])\<rparr>)"

definition ecr_lifecycle_fails_scanner :: ECRScanner where
  \<comment> \<open>the repository of \<^verbatim>\<open>TestScanCostEstimate\<close>, with a failing lifecycle lookup\<close>
  "ecr_lifecycle_fails_scanner =
     ecr_newTestScanner
       ((ecr_mockClient [ecr_makeRepo ''myapp'']
           [''myapp'' \<mapsto> [ecr_makeImage ''sha256:cost'' [] oneGB recent recent]] Map.empty)
          \<lparr>HasLifecyclePolicy := (\<lambda>repo.
             if repo = ''myapp'' then Inl ''get lifecycle policy for myapp: access denied''
             else Inr False)\<rparr>)"

definition ar_images_fail_scanner :: ARScanner where
  \<comment> \<open>the scanner of \<^verbatim>\<open>TestScanListImagesError\<close>\<close>
  "ar_images_fail_scanner =
     ar_newTestScanner
       (ar_mockClient
          [''my-project/us-central1'' \<mapsto>
             [ar_makeRepo ''projects/my-project/locations/us-central1/repositories/broken''
                ''us-central1'' ''broken'']]
          Map.empty Map.empty
          [''projects/my-project/locations/us-central1/repositories/broken'' \<mapsto> ''timeout''])"

definition ecr_scan_lookup_fails_scanner :: ECRScanner where
  \<comment> \<open>a client whose \<^verbatim>\<open>DescribeImageScanFindings\<close> fails\<close>
  "ecr_scan_lookup_fails_scanner =
     ecr_newTestScanner
       ((ecr_mockClient [] Map.empty Map.empty)
          \<lparr>DescribeImageScanFindings := (\<lambda>repo digest. Inl ''scan not found'')\<rparr>)"

definition ecr_all_stale_scanner :: ECRScanner where
  \<comment> \<open>the scanner of \<^verbatim>\<open>TestScanAllStaleRepo\<close> (ECR)\<close>
  "ecr_all_stale_scanner =
     ecr_newTestScanner
       (ecr_mockClient [ecr_makeRepo ''old-repo'']
          [''old-repo'' \<mapsto>
             [ecr_makeImage ''sha256:h1'' [''v1''] halfGB stale200 stale120,
              ecr_makeImage ''sha256:h2'' [''v2''] halfGB stale200 stale120]]
          Map.empty)"

definition ar_all_stale_scanner :: ARScanner where
  \<comment> \<open>the scanner of \<^verbatim>\<open>TestScanAllStaleRepo\<close> (Artifact Registry)\<close>
  "ar_all_stale_scanner =
     ar_newTestScanner
       (ar_mockClient
          [''my-project/us-central1'' \<mapsto>
             [ar_makeRepo ''projects/my-project/locations/us-central1/repositories/old-repo''
                ''us-central1'' ''old-repo'']]
          [''projects/my-project/locations/us-central1/repositories/old-repo'' \<mapsto>
             [ar_makeImage ''uri1'' [''v1''] halfGB stale200 '''',
              ar_makeImage ''uri2'' [''v2''] halfGB stale200 '''']]
          Map.empty Map.empty)"

definition oci_index :: string where
  \<comment> \<open>the media type of an OCI image index, as in \<^verbatim>\<open>TestScanMultiArchNotStaleNotReported\<close>\<close>
  "oci_index = ''application/vnd.oci.image.index.v1+json''"

definition ecr_oci_index_image :: ImageDetail where
  \<comment> \<open>the stale image of \<^verbatim>\<open>TestScanMultiArchBloat\<close> (ECR), as an OCI image index\<close>
  "ecr_oci_index_image =
     (ecr_makeImage ''sha256:multi'' [''latest''] twoGB stale200 stale120)
       \<lparr>ImageManifestMediaType := Some oci_index\<rparr>"

definition ar_oci_index_image :: DockerImage where
  \<comment> \<open>the stale image of \<^verbatim>\<open>TestScanMultiArchBloat\<close> (Artifact Registry), as an OCI image index\<close>
  "ar_oci_index_image = ar_makeImage ''uri-multi'' [''latest''] twoGB stale200 oci_index"

definition ecr_stale_image_scanner :: ECRScanner where
  \<comment> \<open>the scanner of \<^verbatim>\<open>TestScanStaleImage\<close> (ECR)\<close>
  "ecr_stale_image_scanner =
     ecr_newTestScanner
       (ecr_mockClient [ecr_makeRepo ''myapp'']
          [''myapp'' \<mapsto> [ecr_makeImage ''sha256:bbb'' [''v1.0''] halfGB stale200 stale120]]
          Map.empty)"

definition ar_cost_estimate_scanner :: ARScanner where
  \<comment> \<open>the scanner of \<^verbatim>\<open>TestScanCostEstimate\<close> (Artifact Registry)\<close>
  "ar_cost_estimate_scanner =
     ar_newTestScanner
       (ar_mockClient
          [''my-project/us-central1'' \<mapsto>
             [ar_makeRepo ''projects/my-project/locations/us-central1/repositories/myapp''
                ''us-central1'' ''myapp'']]
          [''projects/my-project/locations/us-central1/repositories/myapp'' \<mapsto>
             [ar_makeImage ''uri'' [] oneGB recent '''']]
          Map.empty Map.empty)"

definition three_rate_costs :: "string \<rightharpoonup> (string \<rightharpoonup> float64)" where
  \<comment> \<open>a value of \<^verbatim>\<open>StorageCosts\<close> whose rates differ: ECR has a rate of its own in
      \<^verbatim>\<open>us-east-1\<close>\<close>
  "three_rate_costs =
     [''ecr'' \<mapsto> [''us-east-1'' \<mapsto> Finite (1 / 4), ''default'' \<mapsto> Finite (1 / 2)],
      ''artifactregistry'' \<mapsto> [''default'' \<mapsto> Finite 1]]"

definition new_york :: Location where
  \<comment> \<open>a location with the two transitions of \<^verbatim>\<open>America/New_York\<close> in the winter of 2025/26:
      daylight time (UTC-4) until 2025-11-02 06:00 UTC, standard time (UTC-5) until
      2026-03-08 07:00 UTC, daylight time after\<close>
  "new_york =
     \<lparr>lookup = (\<lambda>sec.
        if sec < 1762063200 then (- 14400, alpha, 1762063200)
        else if sec < 1772953200 then (- 18000, 1762063200, 1772953200)
        else (- 14400, 1772953200, omega))\<rparr>"

definition local_noon :: Time where
  \<comment> \<open>2026-03-10 12:00 in that location (16:00 UTC), two days after the change of offset\<close>
  "local_noon = \<lparr>instant = 1773158400 * 1000000000, loc = new_york\<rparr>"




section \<open>The model on the inputs of the repository's tests\<close>

text \<open>
  \<^verbatim>\<open>TestScanStaleImage\<close> (ECR): one repository with one tagged image of 0.5 GiB, pushed 200
  days ago and last pulled 120 days ago, scanned with 90 stale days.  The test expects
  one \<open>STALE_IMAGE\<close> finding of severity high with \<open>days_stale\<close> at least 120.
\<close>

lemma test_scan_stale_image:
  "ECRScanner_Scan ecr_stale_image_scanner defaultCfg =
     \<lparr>ScanResult.Findings =
        [\<lparr>ID = FindingNoLifecyclePolicy,
          Severity = SeverityMedium,
          ResourceType = ResourceRepository,
          ResourceID = ''myapp'',
          ResourceName = '''',
          Region = ''us-east-1'',
          Message = Literal
            (''No lifecycle policy configured '' @ em_dash @ '' images accumulate indefinitely''),
          EstimatedMonthlyWaste = Finite 0,
          Metadata = []\<rparr>,
         \<lparr>ID = FindingStaleImage,
          Severity = SeverityHigh,
          ResourceType = ResourceImage,
          ResourceID = ''myapp@sha256:bbb'',
          ResourceName = ''myapp:v1.0'',
          Region = ''us-east-1'',
          Message = Sprintf ''Not pulled in %d days (%.0f MB)'' [ArgInt 120, ArgFloat (Finite 512)],
          EstimatedMonthlyWaste = Finite (3602879701896397 / 72057594037927936),
          Metadata =
            [(''last_pull'', MetaRFC3339 1761912000 0),
             (''days_stale'', MetaInt 120),
             (''size_bytes'', MetaInt 536870912),
             (''stale_days'', MetaInt 90)]\<rparr>,
         \<lparr>ID = FindingUnusedRepo,
          Severity = SeverityLow,
          ResourceType = ResourceRepository,
          ResourceID = ''myapp'',
          ResourceName = '''',
          Region = ''us-east-1'',
          Message = Sprintf ''All %d images are stale'' [ArgInt 1],
          EstimatedMonthlyWaste = Finite (3602879701896397 / 72057594037927936),
          Metadata = [(''image_count'', MetaInt 1)]\<rparr>],
      ScanResult.Errors = [],
      ResourcesScanned = 1,
      ScanResult.RepositoriesScanned = 1\<rparr>"
  by code_simp

text \<open>
  \<^verbatim>\<open>TestScanCostEstimate\<close> (Artifact Registry): one repository with one untagged image of
  1 GiB uploaded 10 days ago.  The test expects one \<open>UNTAGGED_IMAGE\<close> finding whose waste
  lies between 0.09 and 0.11.
\<close>

lemma test_scan_cost_estimate:
  "ARScanner_Scan ar_cost_estimate_scanner defaultCfg =
     \<lparr>ScanResult.Findings =
        [\<lparr>ID = FindingUntaggedImage,
          Severity = SeverityHigh,
          ResourceType = ResourceImage,
          ResourceID = ''uri'',
          ResourceName = '''',
          Region = ''us-central1'',
          Message = Sprintf ''Untagged image (%.0f MB)'' [ArgFloat (Finite 1024)],
          EstimatedMonthlyWaste = Finite (3602879701896397 / 36028797018963968),
          Metadata = [(''size_bytes'', MetaInt 1073741824), (''uri'', MetaString ''uri'')]\<rparr>],
      ScanResult.Errors = [],
      ResourcesScanned = 1,
      ScanResult.RepositoriesScanned = 1\<rparr>"
  by code_simp

lemma test_scan_cost_estimate_bounds:
  "fle (round64 (9 / 100)) (Finite (3602879701896397 / 36028797018963968)) \<and>
   fle (Finite (3602879701896397 / 36028797018963968)) (round64 (11 / 100))"
  by code_simp

section \<open>Auxiliary notions and lemmas\<close>

subsection \<open>What one image is classified as\<close>

definition ecr_stale :: "ECRScanner \<Rightarrow> ScanConfig \<Rightarrow> ImageDetail \<Rightarrow> bool" where
  \<comment> \<open>the test under which the ECR scanner emits its stale finding\<close>
  "ecr_stale s cfg img =
     (StaleDays cfg > 0 \<and>
      (case lastActivityTime img of
         None \<Rightarrow> False
       | Some la \<Rightarrow> Before la (AddDate_days (ECRScanner.now s) (- StaleDays cfg))))"

definition ar_stale :: "ARScanner \<Rightarrow> ScanConfig \<Rightarrow> DockerImage \<Rightarrow> bool" where
  \<comment> \<open>the test under which the Artifact Registry scanner emits its stale finding\<close>
  "ar_stale s cfg img =
     (StaleDays cfg > 0 \<and> \<not> IsZero (UploadTime img) \<and>
      Before (UploadTime img) (AddDate_days (ARScanner.now s) (- StaleDays cfg)))"

definition kind :: "Finding \<Rightarrow> FindingID \<times> Severity \<times> ResourceType \<times> float64" where
  "kind f = (ID f, Severity f, ResourceType f, EstimatedMonthlyWaste f)"







lemma fixedOffset_FixedZone: "fixedOffset (FixedZone offset) offset"
  by (simp add: fixedOffset_def FixedZone_def)

lemma ecr_analyzeImage_kinds:
  "map kind (ECRScanner_analyzeImage s cfg repoName img) =
     (if ImageTags img = []
      then [(FindingUntaggedImage, SeverityHigh, ResourceImage,
             MonthlyStorageCost ''ecr'' (region s) (derefInt64 (ImageSizeInBytes img)))]
      else []) @
     (if ecr_stale s cfg img
      then [(FindingStaleImage, SeverityHigh, ResourceImage,
             MonthlyStorageCost ''ecr'' (region s) (derefInt64 (ImageSizeInBytes img)))]
      else []) @
     (if MaxSizeBytes cfg > 0 \<and> derefInt64 (ImageSizeInBytes img) > MaxSizeBytes cfg
      then [(FindingLargeImage, SeverityMedium, ResourceImage,
             MonthlyStorageCost ''ecr'' (region s) (derefInt64 (ImageSizeInBytes img)))]
      else []) @
     (if ImageManifestMediaType img \<noteq> None \<and>
         Contains (deref (ImageManifestMediaType img)) ''manifest.list'' \<and> ecr_stale s cfg img
      then [(FindingMultiArchBloat, SeverityLow, ResourceImage,
             MonthlyStorageCost ''ecr'' (region s) (derefInt64 (ImageSizeInBytes img)))]
      else [])"
  by (simp add: ECRScanner_analyzeImage_def ecr_stale_def kind_def Let_def split: option.split)

lemma ar_analyzeImage_kinds:
  "map kind (ARScanner_analyzeImage s cfg repo img) =
     (if Tags img = []
      then [(FindingUntaggedImage, SeverityHigh, ResourceImage,
             MonthlyStorageCost ''artifactregistry'' (Location repo) (SizeBytes img))]
      else []) @
     (if ar_stale s cfg img
      then [(FindingStaleImage, SeverityHigh, ResourceImage,
             MonthlyStorageCost ''artifactregistry'' (Location repo) (SizeBytes img))]
      else []) @
     (if MaxSizeBytes cfg > 0 \<and> SizeBytes img > MaxSizeBytes cfg
      then [(FindingLargeImage, SeverityMedium, ResourceImage,
             MonthlyStorageCost ''artifactregistry'' (Location repo) (SizeBytes img))]
      else []) @
     (if (Contains (MediaType img) ''manifest.list'' \<or> Contains (MediaType img) ''image.index'')
         \<and> ar_stale s cfg img
      then [(FindingMultiArchBloat, SeverityLow, ResourceImage,
             MonthlyStorageCost ''artifactregistry'' (Location repo) (SizeBytes img))]
      else [])"
  by (simp add: ARScanner_analyzeImage_def ar_stale_def kind_def Let_def)

lemma severities_of_kinds:
  "map Severity (filter (\<lambda>f. ID f = i) fs) =
     map (\<lambda>k. fst (snd k)) (filter (\<lambda>k. fst k = i) (map kind fs))"
  by (induction fs) (simp_all add: kind_def)

lemma ids_of_kinds: "map ID fs = map fst (map kind fs)"
  by (simp add: kind_def)

lemma count_of_kinds:
  "length (filter (\<lambda>f. ID f = i) fs) = length (filter (\<lambda>k. fst k = i) (map kind fs))"
  by (induction fs) (simp_all add: kind_def)

lemma ecr_stale_count:
  "length (filter (\<lambda>f. ID f = FindingStaleImage) (ECRScanner_analyzeImage s cfg repoName img)) =
     (if ecr_stale s cfg img then 1 else 0)"
  by (simp add: count_of_kinds ecr_analyzeImage_kinds)

lemma ar_stale_count:
  "length (filter (\<lambda>f. ID f = FindingStaleImage) (ARScanner_analyzeImage s cfg repo img)) =
     (if ar_stale s cfg img then 1 else 0)"
  by (simp add: count_of_kinds ar_analyzeImage_kinds)

lemma countStale_eq:
  "countStale fs n = n + length (filter (\<lambda>f. ID f = FindingStaleImage) fs)"
  by (induction fs arbitrary: n) simp_all




subsection \<open>The times of the tests\<close>

lemma test_times_nonzero:
  "\<not> IsZero stale120 \<and> \<not> IsZero stale200 \<and> \<not> IsZero recent"
  by code_simp

lemma test_times_stale:
  "Before stale120 (AddDate_days test_now (- 90)) \<and>
   Before stale200 (AddDate_days test_now (- 90)) \<and>
   \<not> Before recent (AddDate_days test_now (- 90))"
  by code_simp


subsection \<open>The date arithmetic of the clock on examples\<close>

text \<open>
  In UTC 90 days back are 90 times 24 hours.  Across the change of offset of
  \<open>new_york\<close> they are an hour less: from 12:00 at UTC-4 back to 12:00 at UTC-5.  A
  count of days whose seconds do not fit 64 bits wraps around: \<open>2 ^ 63 - 1\<close> days back
  from the clock of the tests is one day ahead of it.
\<close>

lemma AddDate_days_UTC_example:
  "instant test_now - instant (AddDate_days test_now (- 90)) = 90 * (24 * Hour)"
  by code_simp

lemma AddDate_days_offset_change_example:
  "instant local_noon - instant (AddDate_days local_noon (- 90)) = 90 * (24 * Hour) - Hour"
  by code_simp

lemma AddDate_days_wraps_example:
  "instant (AddDate_days test_now (- 9223372036854775807)) = instant test_now + 24 * Hour"
  by code_simp

subsection \<open>The loops in closed form\<close>

lemma ecr_scanImages_eq:
  "ECRScanner_scanImages s cfg repoName images (result, n) =
     (result\<lparr>ResourcesScanned := ResourcesScanned result + length images,
              ScanResult.Findings := ScanResult.Findings result @
                concat (map (ECRScanner_analyzeImage s cfg repoName) images)\<rparr>,
      n + length (filter (ecr_stale s cfg) images))"
proof (induction images arbitrary: result n)
  case Nil
  show ?case by simp
next
  case (Cons img images)
  show ?case
    by (simp add: Cons.IH Let_def countStale_eq ecr_stale_count)
qed

lemma ar_scanImages_eq:
  "ARScanner_scanImages s cfg repo images (result, n) =
     (result\<lparr>ResourcesScanned := ResourcesScanned result + length images,
              ScanResult.Findings := ScanResult.Findings result @
                concat (map (ARScanner_analyzeImage s cfg repo) images)\<rparr>,
      n + length (filter (ar_stale s cfg) images))"
proof (induction images arbitrary: result n)
  case Nil
  show ?case by simp
next
  case (Cons img images)
  show ?case
    by (simp add: Cons.IH Let_def countStale_eq ar_stale_count)
qed

lemma ecr_totalWaste_eq:
  "ECRScanner_totalWaste s images acc =
     foldl fadd acc
       (map (\<lambda>img. MonthlyStorageCost ''ecr'' (region s) (derefInt64 (ImageSizeInBytes img))) images)"
  by (induction images arbitrary: acc) simp_all

lemma ar_totalWaste_eq:
  "ARScanner_totalWaste repo images acc =
     foldl fadd acc
       (map (\<lambda>img. MonthlyStorageCost ''artifactregistry'' (Location repo) (SizeBytes img)) images)"
  by (induction images arbitrary: acc) simp_all

lemma all_counted_iff: "length (filter P xs) = length xs \<longleftrightarrow> list_all P xs"
  by (metis filter_id_conv length_filter_less less_irrefl_nat list_all_iff filter_True)

subsection \<open>One repository in closed form\<close>

definition unused_repo_finding :: "string \<Rightarrow> string \<Rightarrow> nat \<Rightarrow> float64 \<Rightarrow> Finding" where
  \<comment> \<open>the finding both scanners append when every image of a repository is stale\<close>
  "unused_repo_finding rid rgn n totalWaste =
     \<lparr>ID = FindingUnusedRepo,
      Severity = SeverityLow,
      ResourceType = ResourceRepository,
      ResourceID = rid,
      ResourceName = '''',
      Region = rgn,
      Message = Sprintf ''All %d images are stale'' [ArgInt (int n)],
      EstimatedMonthlyWaste = totalWaste,
      Metadata = [(''image_count'', MetaInt (int n))]\<rparr>"

definition empty_repo_finding :: "string \<Rightarrow> string \<Rightarrow> string \<Rightarrow> Finding" where
  \<comment> \<open>the finding for a repository with no image\<close>
  "empty_repo_finding rid rgn msg =
     \<lparr>ID = FindingUnusedRepo,
      Severity = SeverityLow,
      ResourceType = ResourceRepository,
      ResourceID = rid,
      ResourceName = '''',
      Region = rgn,
      Message = Literal msg,
      EstimatedMonthlyWaste = Finite 0,
      Metadata = []\<rparr>"

definition no_lifecycle_finding :: "string \<Rightarrow> string \<Rightarrow> Finding" where
  "no_lifecycle_finding rid rgn =
     \<lparr>ID = FindingNoLifecyclePolicy,
      Severity = SeverityMedium,
      ResourceType = ResourceRepository,
      ResourceID = rid,
      ResourceName = '''',
      Region = rgn,
      Message = Literal
        (''No lifecycle policy configured '' @ em_dash @
         '' images accumulate indefinitely''),
      EstimatedMonthlyWaste = Finite 0,
      Metadata = []\<rparr>"

definition ecr_costs :: "ECRScanner \<Rightarrow> ImageDetail list \<Rightarrow> float64 list" where
  "ecr_costs s images =
     map (\<lambda>img. MonthlyStorageCost ''ecr'' (region s) (derefInt64 (ImageSizeInBytes img))) images"

definition ar_costs :: "Repository \<Rightarrow> DockerImage list \<Rightarrow> float64 list" where
  "ar_costs repo images =
     map (\<lambda>img. MonthlyStorageCost ''artifactregistry'' (Location repo) (SizeBytes img)) images"

lemma ecr_scanRepository_eq:
  "ECRScanner_scanRepository s cfg repo result =
     (case ECRAPI.ListImages (ECRScanner.client s) (deref (RepositoryName repo)) of
        Inl err \<Rightarrow>
          result\<lparr>ScanResult.Errors := ScanResult.Errors result @
            [region s @ ''/'' @ deref (RepositoryName repo) @ '': '' @ err]\<rparr>
      | Inr images \<Rightarrow>
          if images = [] then
            result\<lparr>ScanResult.Findings := ScanResult.Findings result @
              [empty_repo_finding (deref (RepositoryName repo)) (region s) ''Repository has no images'']\<rparr>
          else
            result\<lparr>ScanResult.Errors := ScanResult.Errors result @
                       (case HasLifecyclePolicy (ECRScanner.client s) (deref (RepositoryName repo)) of
                          Inl err \<Rightarrow>
                            [region s @ ''/'' @ deref (RepositoryName repo) @ '' lifecycle: '' @ err]
                        | Inr hasPolicy \<Rightarrow> []),
                     ResourcesScanned := ResourcesScanned result + length images,
                     ScanResult.Findings := ScanResult.Findings result @
                       (case HasLifecyclePolicy (ECRScanner.client s) (deref (RepositoryName repo)) of
                          Inl err \<Rightarrow> []
                        | Inr hasPolicy \<Rightarrow>
                            if hasPolicy then []
                            else [no_lifecycle_finding (deref (RepositoryName repo)) (region s)]) @
                       concat (map (ECRScanner_analyzeImage s cfg (deref (RepositoryName repo))) images) @
                       (if list_all (ecr_stale s cfg) images
                        then [unused_repo_finding (deref (RepositoryName repo)) (region s)
                                (length images) (foldl fadd (Finite 0) (ecr_costs s images))]
                        else [])\<rparr>)"
  by (simp add: ECRScanner_scanRepository_def Let_def ecr_scanImages_eq ecr_totalWaste_eq
      all_counted_iff unused_repo_finding_def empty_repo_finding_def no_lifecycle_finding_def
      ecr_costs_def split: sum.split)

lemma ar_scanRepository_eq:
  "ARScanner_scanRepository s cfg repo result =
     (case ListDockerImages (ARScanner.client s) (Repository.Name repo) of
        Inl err \<Rightarrow>
          result\<lparr>ScanResult.Errors := ScanResult.Errors result @
            [Location repo @ ''/'' @ RepoID repo @ '': '' @ err]\<rparr>
      | Inr images \<Rightarrow>
          if images = [] then
            result\<lparr>ScanResult.Findings := ScanResult.Findings result @
              [empty_repo_finding (RepoID repo) (Location repo) ''Repository has no Docker images'']\<rparr>
          else
            result\<lparr>ResourcesScanned := ResourcesScanned result + length images,
                     ScanResult.Findings := ScanResult.Findings result @
                       concat (map (ARScanner_analyzeImage s cfg repo) images) @
                       (if list_all (ar_stale s cfg) images
                        then [unused_repo_finding (RepoID repo) (Location repo)
                                (length images) (foldl fadd (Finite 0) (ar_costs repo images))]
                        else [])\<rparr>)"
  by (simp add: ARScanner_scanRepository_def Let_def ar_scanImages_eq ar_totalWaste_eq
      all_counted_iff unused_repo_finding_def empty_repo_finding_def ar_costs_def split: sum.split)

subsection \<open>The repository loops\<close>

lemma ecr_scanRepos_foldl:
  "ECRScanner_scanRepos s cfg repos result =
     foldl (\<lambda>res repo. ECRScanner_scanRepository s cfg repo res) result
       (filter (\<lambda>repo. \<not> excluded cfg (deref (RepositoryName repo))) repos)"
  by (induction repos arbitrary: result) (simp_all add: Let_def)

lemma ar_scanRepos_foldl:
  "ARScanner_scanRepos s cfg repos result =
     foldl (\<lambda>res repo. ARScanner_scanRepository s cfg repo res) result
       (filter (\<lambda>repo. \<not> excluded cfg (RepoID repo)) repos)"
  by (induction repos arbitrary: result) simp_all

lemma ecr_scanRepository_RepositoriesScanned:
  "ScanResult.RepositoriesScanned (ECRScanner_scanRepository s cfg repo result) =
     ScanResult.RepositoriesScanned result"
  by (simp add: ecr_scanRepository_eq split: sum.split)

lemma ar_scanRepository_RepositoriesScanned:
  "ScanResult.RepositoriesScanned (ARScanner_scanRepository s cfg repo result) =
     ScanResult.RepositoriesScanned result"
  by (simp add: ar_scanRepository_eq split: sum.split)

lemma ecr_foldl_RepositoriesScanned:
  "ScanResult.RepositoriesScanned
     (foldl (\<lambda>res repo. ECRScanner_scanRepository s cfg repo res) result repos) =
   ScanResult.RepositoriesScanned result"
  by (induction repos arbitrary: result) (simp_all add: ecr_scanRepository_RepositoriesScanned)

lemma ar_foldl_RepositoriesScanned:
  "ScanResult.RepositoriesScanned
     (foldl (\<lambda>res repo. ARScanner_scanRepository s cfg repo res) result repos) =
   ScanResult.RepositoriesScanned result"
  by (induction repos arbitrary: result) (simp_all add: ar_scanRepository_RepositoriesScanned)

subsection \<open>What an Artifact Registry scan never emits\<close>

definition ecr_only :: "Finding \<Rightarrow> bool" where
  \<comment> \<open>the two kinds of finding that only the ECR scanner has code for\<close>
  "ecr_only f = (ID f = FindingNoLifecyclePolicy \<or> ID f = FindingVulnerableImage)"

lemma ecr_only_kind:
  "filter ecr_only fs = [] \<longleftrightarrow>
   filter (\<lambda>k. fst k = FindingNoLifecyclePolicy \<or> fst k = FindingVulnerableImage) (map kind fs) = []"
  by (induction fs) (simp_all add: ecr_only_def kind_def)

lemma ar_analyzeImage_ecr_only:
  "filter ecr_only (ARScanner_analyzeImage s cfg repo img) = []"
  by (simp add: ecr_only_kind ar_analyzeImage_kinds)

lemma ar_images_ecr_only:
  "filter ecr_only (concat (map (ARScanner_analyzeImage s cfg repo) images)) = []"
  by (induction images) (simp_all add: ar_analyzeImage_ecr_only)

lemma ar_scanRepository_ecr_only:
  "filter ecr_only (ScanResult.Findings (ARScanner_scanRepository s cfg repo result)) =
   filter ecr_only (ScanResult.Findings result)"
  by (simp add: ar_scanRepository_eq ar_images_ecr_only ecr_only_def unused_repo_finding_def
      empty_repo_finding_def split: sum.split)

lemma ar_foldl_ecr_only:
  "filter ecr_only (ScanResult.Findings
     (foldl (\<lambda>res repo. ARScanner_scanRepository s cfg repo res) result repos)) =
   filter ecr_only (ScanResult.Findings result)"
  by (induction repos arbitrary: result) (simp_all add: ar_scanRepository_ecr_only)

lemma ar_scanLocation_ecr_only:
  "filter ecr_only (ScanResult.Findings (ARScanner_scanLocation s cfg location result)) =
   filter ecr_only (ScanResult.Findings result)"
  by (simp add: ARScanner_scanLocation_def ar_scanRepos_foldl ar_foldl_ecr_only split: sum.split)

lemma ar_scanLocations_append:
  "ARScanner_scanLocations s cfg (xs @ ys) result =
     ARScanner_scanLocations s cfg ys (ARScanner_scanLocations s cfg xs result)"
  by (induction xs arbitrary: result) simp_all

lemma ar_scanLocations_ecr_only:
  "filter ecr_only (ScanResult.Findings (ARScanner_scanLocations s cfg locs result)) =
   filter ecr_only (ScanResult.Findings result)"
  by (induction locs arbitrary: result) (simp_all add: ar_scanLocation_ecr_only)

lemma ar_scanLocation_RepositoriesScanned:
  "ScanResult.RepositoriesScanned (ARScanner_scanLocation s cfg location result) =
     ScanResult.RepositoriesScanned result +
     (case ARAPI.ListRepositories (ARScanner.client s) (project s) location of
        Inl err \<Rightarrow> 0
      | Inr repos \<Rightarrow> length repos)"
  by (simp add: ARScanner_scanLocation_def ar_scanRepos_foldl ar_foldl_RepositoriesScanned
      split: sum.split)

lemma ar_scanLocations_RepositoriesScanned:
  "ScanResult.RepositoriesScanned (ARScanner_scanLocations s cfg locs result) =
     ScanResult.RepositoriesScanned result +
     sum_list (map (\<lambda>location.
        case ARAPI.ListRepositories (ARScanner.client s) (project s) location of
          Inl err \<Rightarrow> 0
        | Inr repos \<Rightarrow> length repos) locs)"
  by (induction locs arbitrary: result) (simp_all add: ar_scanLocation_RepositoriesScanned)

subsection \<open>Stale images and the repository finding\<close>

lemma bex_filter_length: "(\<exists>f\<in>set fs. P f) \<longleftrightarrow> length (filter P fs) \<noteq> 0"
  by (induction fs) auto

lemma ecr_flagged_stale_iff:
  "(\<exists>f\<in>set (ECRScanner_analyzeImage s cfg repoName img). ID f = FindingStaleImage) \<longleftrightarrow>
   ecr_stale s cfg img"
  by (simp only: bex_filter_length ecr_stale_count) simp

lemma ar_flagged_stale_iff:
  "(\<exists>f\<in>set (ARScanner_analyzeImage s cfg repo img). ID f = FindingStaleImage) \<longleftrightarrow>
   ar_stale s cfg img"
  by (simp only: bex_filter_length ar_stale_count) simp

lemma unused_kind:
  "filter (\<lambda>f. ID f = FindingUnusedRepo) fs = [] \<longleftrightarrow>
   filter (\<lambda>k. fst k = FindingUnusedRepo) (map kind fs) = []"
  by (induction fs) (simp_all add: kind_def)

lemma ecr_images_no_unused:
  "filter (\<lambda>f. ID f = FindingUnusedRepo)
     (concat (map (ECRScanner_analyzeImage s cfg repoName) images)) = []"
  by (induction images) (simp_all add: unused_kind ecr_analyzeImage_kinds)

lemma ar_images_no_unused:
  "filter (\<lambda>f. ID f = FindingUnusedRepo)
     (concat (map (ARScanner_analyzeImage s cfg repo) images)) = []"
  by (induction images) (simp_all add: unused_kind ar_analyzeImage_kinds)

lemma waste_of_kinds:
  "map EstimatedMonthlyWaste fs = map (\<lambda>k. snd (snd (snd k))) (map kind fs)"
  by (simp add: kind_def)

lemma length_of_kinds: "length fs = length (map kind fs)"
  by simp

lemma ecr_analyzeImage_waste:
  "map EstimatedMonthlyWaste (ECRScanner_analyzeImage s cfg repoName img) =
     replicate (length (ECRScanner_analyzeImage s cfg repoName img))
       (MonthlyStorageCost ''ecr'' (region s) (derefInt64 (ImageSizeInBytes img)))"
  by (simp only: waste_of_kinds length_of_kinds [of "ECRScanner_analyzeImage s cfg repoName img"]
      ecr_analyzeImage_kinds) (simp add: replicate_add [symmetric])

lemma ar_analyzeImage_waste:
  "map EstimatedMonthlyWaste (ARScanner_analyzeImage s cfg repo img) =
     replicate (length (ARScanner_analyzeImage s cfg repo img))
       (MonthlyStorageCost ''artifactregistry'' (Location repo) (SizeBytes img))"
  by (simp only: waste_of_kinds length_of_kinds [of "ARScanner_analyzeImage s cfg repo img"]
      ar_analyzeImage_kinds) (simp add: replicate_add [symmetric])

subsection \<open>Costs of the fixtures\<close>

lemma half_gb_cost_ecr:
  "MonthlyStorageCost ''ecr'' ''us-east-1'' halfGB = Finite (3602879701896397 / 72057594037927936)"
  by code_simp

lemma half_gb_cost_ar:
  "MonthlyStorageCost ''artifactregistry'' ''us-central1'' halfGB =
     Finite (3602879701896397 / 72057594037927936)"
  by code_simp

lemma two_half_gb_costs:
  "foldl fadd (Finite 0)
     [Finite (3602879701896397 / 72057594037927936),
      Finite (3602879701896397 / 72057594037927936)] =
   Finite (3602879701896397 / 36028797018963968)"
  by code_simp

subsection \<open>The analyzer's loops in closed form\<close>

lemma filterFindings_eq:
  "filterFindings fs cfg filtered =
     filtered @ filter (\<lambda>f. fge (EstimatedMonthlyWaste f) (AnalyzerConfig.MinMonthlyCost cfg)) fs"
  by (induction fs arbitrary: filtered) simp_all

lemma increment_apply:
  "increment m x k =
     (if k = x then Some ((case m x of None \<Rightarrow> 0 | Some c \<Rightarrow> c) + 1) else m k)"
  by (simp add: increment_def)

lemma foldl_increment:
  "foldl increment m ks k =
     (let n = length (filter (\<lambda>x. x = k) ks)
      in if n = 0 then m k else Some ((case m k of None \<Rightarrow> 0 | Some c \<Rightarrow> c) + n))"
proof (induction ks arbitrary: m)
  case Nil
  show ?case by simp
next
  case (Cons x ks)
  have "foldl increment m (x # ks) k = foldl increment (increment m x) ks k"
    by simp
  also have "\<dots> =
     (let n = length (filter (\<lambda>x. x = k) ks)
      in if n = 0 then increment m x k
         else Some ((case increment m x k of None \<Rightarrow> 0 | Some c \<Rightarrow> c) + n))"
    by (rule Cons.IH)
  also have "\<dots> =
     (let n = length (filter (\<lambda>x. x = k) (x # ks))
      in if n = 0 then m k else Some ((case m k of None \<Rightarrow> 0 | Some c \<Rightarrow> c) + n))"
    by (cases "x = k") (simp_all add: increment_apply Let_def)
  finally show ?case .
qed

lemma summarize_eq:
  "summarize fs summary =
     summary\<lparr>TotalMonthlyWaste :=
                foldl fadd (TotalMonthlyWaste summary) (map EstimatedMonthlyWaste fs),
              BySeverity :=
                foldl increment (BySeverity summary) (map (\<lambda>f. Severity_string (Severity f)) fs),
              ByResourceType :=
                foldl increment (ByResourceType summary)
                  (map (\<lambda>f. ResourceType_string (ResourceType f)) fs)\<rparr>"
  by (induction fs arbitrary: summary) simp_all

lemma histogram_eq:
  "foldl increment Map.empty (map g fs) k =
     (let n = length (filter (\<lambda>f. g f = k) fs) in if n = 0 then None else Some n)"
proof -
  have "length (filter (\<lambda>x. x = k) (map g fs)) = length (filter (\<lambda>f. g f = k) fs)"
    by (induction fs) simp_all
  then show ?thesis
    by (simp add: foldl_increment Let_def)
qed

subsection \<open>The multi-architecture rule of each scanner\<close>

lemma multi_arch_bloat_rules:
  "map Severity (filter (\<lambda>f. ID f = FindingMultiArchBloat)
                  (ECRScanner_analyzeImage s cfg repoName img)) =
     (if ImageManifestMediaType img \<noteq> None \<and>
         Contains (deref (ImageManifestMediaType img)) ''manifest.list'' \<and> ecr_stale s cfg img
      then [SeverityLow] else [])"
  "map Severity (filter (\<lambda>f. ID f = FindingMultiArchBloat)
                  (ARScanner_analyzeImage s' cfg repo img')) =
     (if (Contains (MediaType img') ''manifest.list'' \<or> Contains (MediaType img') ''image.index'')
         \<and> ar_stale s' cfg img'
      then [SeverityLow] else [])"
  by (simp_all add: severities_of_kinds ecr_analyzeImage_kinds ar_analyzeImage_kinds)

subsection \<open>The storage rate\<close>

lemma rate_0_10_value:
  "rate_0_10 = Finite (3602879701896397 / 36028797018963968)"
  by code_simp

lemma lookupCostPerGB_const: "lookupCostPerGB provider rgn = rate_0_10"
  by (simp add: lookupCostPerGB_def lookupCostPerGB_in_def StorageCosts_def index_costs_def
      index_provider_def split: option.split)

lemma spec_rate_const: "spec_rate StorageCosts provider rgn = rate_0_10"
  by (simp add: spec_rate_def spec_rate_table_def spec_global_default_def StorageCosts_def
      index_costs_def index_provider_def split: option.split)

lemma lookupCostPerGB_in_spec_rate:
  assumes "has_defaults costs"
  shows "lookupCostPerGB_in costs provider rgn = spec_rate costs provider rgn"
proof (cases "costs provider")
  case None
  then show ?thesis
    by (simp add: lookupCostPerGB_in_def spec_rate_def spec_rate_table_def
        spec_global_default_def)
next
  case (Some providerCosts)
  then obtain rate where "providerCosts ''default'' = Some rate"
    using assms by (auto simp: has_defaults_def)
  with Some show ?thesis
    by (simp add: lookupCostPerGB_in_def spec_rate_def spec_rate_table_def index_costs_def
        split: option.split)
qed

lemma has_defaults_StorageCosts: "has_defaults StorageCosts"
  by (auto simp: has_defaults_def StorageCosts_def split: if_splits)

lemma round64_zero: "round64 0 = Finite 0"
  by (simp add: round64_def)

subsection \<open>Rounding to float64 is monotone\<close>

lemma bitlen_pos: "0 < n \<Longrightarrow> 1 \<le> bitlen n"
  using bitlen_bounds [of n] bitlen_nonneg [of n]
  by (cases "bitlen n = 0") auto

lemma flog2_lower_ge1:
  assumes "1 \<le> a"
  shows "2 powi (flog2 a) \<le> a"
proof -
  let ?n = "\<lfloor>a\<rfloor>"
  have n: "0 < ?n" using assms by simp
  have "(2::int) ^ nat (bitlen ?n - 1) \<le> ?n"
    using bitlen_bounds [OF n] by simp
  then have "(of_int (2 ^ nat (bitlen ?n - 1)) :: rat) \<le> of_int ?n"
    by (simp only: of_int_le_iff)
  also have "\<dots> \<le> a" by simp
  finally have "(2::rat) ^ nat (bitlen ?n - 1) \<le> a" by simp
  moreover have "0 \<le> bitlen ?n - 1" using bitlen_pos [OF n] by simp
  ultimately show ?thesis
    using assms by (simp add: flog2_def power_int_nonneg_exp)
qed

lemma flog2_upper_ge1:
  assumes "1 \<le> a"
  shows "a < 2 powi (flog2 a + 1)"
proof -
  let ?n = "\<lfloor>a\<rfloor>"
  have n: "0 < ?n" using assms by simp
  have "?n + 1 \<le> (2::int) ^ nat (bitlen ?n)"
    using bitlen_bounds [OF n] by simp
  then have "(of_int (?n + 1) :: rat) \<le> of_int (2 ^ nat (bitlen ?n))"
    by (simp only: of_int_le_iff)
  moreover have "a < of_int (?n + 1)" by linarith
  ultimately have "a < (2::rat) ^ nat (bitlen ?n)" by simp
  moreover have "0 \<le> bitlen ?n" using bitlen_pos [OF n] by simp
  ultimately show ?thesis
    using assms by (simp add: flog2_def power_int_nonneg_exp)
qed


lemma flog2_small:
  assumes "0 < a" "a < 1"
  shows "2 powi (flog2 a) \<le> a" and "a < 2 powi (flog2 a + 1)"
proof -
  let ?y = "1 / a"
  let ?n = "\<lceil>?y\<rceil> - 1"
  let ?b = "bitlen ?n"
  have y: "1 < ?y" using assms by simp
  then have c: "2 \<le> \<lceil>?y\<rceil>" by linarith
  then have n: "0 < ?n" by simp
  have b: "1 \<le> ?b" using bitlen_pos [OF n] .
  have fl: "flog2 a = - ?b" using assms by (simp add: flog2_def)
  have "(of_int ((2::int) ^ nat (?b - 1)) :: rat) \<le> of_int ?n"
    using bitlen_bounds [OF n] by (simp only: of_int_le_iff)
  moreover have "(of_int ?n :: rat) < ?y" by linarith
  ultimately have lo: "(2::rat) ^ nat (?b - 1) < ?y" by simp
  have "\<lceil>?y\<rceil> \<le> (2::int) ^ nat ?b"
    using bitlen_bounds [OF n] by simp
  then have "(of_int \<lceil>?y\<rceil> :: rat) \<le> of_int ((2::int) ^ nat ?b)"
    by (simp only: of_int_le_iff)
  then have "(of_int \<lceil>?y\<rceil> :: rat) \<le> 2 ^ nat ?b"
    by simp
  then have hi: "?y \<le> (2::rat) ^ nat ?b"
    using le_of_int_ceiling [of ?y] by (rule order_trans [rotated])
  have p1: "(2::rat) powi (- ?b) = 1 / 2 ^ nat ?b"
    using b by (simp add: power_int_minus_divide power_int_nonneg_exp)
  have p2: "(2::rat) powi (- ?b + 1) = 1 / 2 ^ nat (?b - 1)"
  proof -
    have "(2::rat) powi (- ?b + 1) = 2 powi (- (?b - 1))" by simp
    also have "\<dots> = 1 / 2 powi (?b - 1)" by (rule power_int_minus_divide)
    also have "\<dots> = 1 / 2 ^ nat (?b - 1)" using b by (simp add: power_int_nonneg_exp)
    finally show ?thesis .
  qed
  from hi assms have "1 / 2 ^ nat ?b \<le> a"
    by (simp add: field_simps)
  then show "2 powi (flog2 a) \<le> a" by (simp only: fl p1)
  from lo assms have "a < 1 / 2 ^ nat (?b - 1)"
    by (simp add: field_simps)
  then show "a < 2 powi (flog2 a + 1)" by (simp only: fl p2)
qed

lemma flog2_bounds:
  assumes "0 < a"
  shows "2 powi (flog2 a) \<le> a" and "a < 2 powi (flog2 a + 1)"
  using assms flog2_lower_ge1 [of a] flog2_upper_ge1 [of a] flog2_small [of a]
  by (cases "1 \<le> a"; simp)+

lemma flog2_mono:
  assumes "0 < a" "a \<le> b"
  shows "flog2 a \<le> flog2 b"
proof (rule ccontr)
  assume "\<not> flog2 a \<le> flog2 b"
  then have "flog2 b + 1 \<le> flog2 a" by simp
  then have "(2::rat) powi (flog2 b + 1) \<le> 2 powi (flog2 a)"
    by (intro power_int_increasing) simp_all
  also have "\<dots> \<le> a" using assms by (intro flog2_bounds) 
  finally have "2 powi (flog2 b + 1) \<le> b" using assms by simp
  moreover have "b < 2 powi (flog2 b + 1)" using assms by (intro flog2_bounds) simp
  ultimately show False by simp
qed


lemma round_half_even_of_int: "round_half_even (of_int n) = n"
  by (simp add: round_half_even_def)

lemma round_half_even_bounds:
  "\<lfloor>m\<rfloor> \<le> round_half_even m" "round_half_even m \<le> \<lfloor>m\<rfloor> + 1"
  by (simp_all add: round_half_even_def Let_def)

lemma round_half_even_mono:
  assumes "m \<le> m'"
  shows "round_half_even m \<le> round_half_even m'"
proof (cases "\<lfloor>m\<rfloor> = \<lfloor>m'\<rfloor>")
  case True
  with assms show ?thesis
    by (auto simp: round_half_even_def Let_def)
next
  case False
  with assms have "\<lfloor>m\<rfloor> + 1 \<le> \<lfloor>m'\<rfloor>"
    using floor_mono [of m m'] by linarith
  with round_half_even_bounds(2) [of m] round_half_even_bounds(1) [of m'] show ?thesis
    by linarith
qed

definition round_at :: "int \<Rightarrow> rat \<Rightarrow> rat" where
  \<comment> \<open>rounding to the nearest multiple of \<open>2 ^ k\<close>, ties to the even multiple\<close>
  "round_at k a = of_int (round_half_even (a / 2 powi k)) * 2 powi k"

lemma round_at_mono:
  assumes "a \<le> b"
  shows "round_at k a \<le> round_at k b"
proof -
  have "a / 2 powi k \<le> b / 2 powi k"
    using assms by (simp add: divide_right_mono)
  then have "round_half_even (a / 2 powi k) \<le> round_half_even (b / 2 powi k)"
    by (rule round_half_even_mono)
  then show ?thesis
    by (simp add: round_at_def mult_right_mono)
qed

lemma round_at_multiple: "round_at k (of_int n * 2 powi k) = of_int n * 2 powi k"
  by (simp add: round_at_def round_half_even_of_int)

lemma round_at_power:
  assumes "k \<le> j"
  shows "round_at k (2 powi j) = 2 powi j"
proof -
  have "(2::rat) powi j = 2 powi (j - k) * 2 powi k"
    by (simp flip: power_int_add)
  also have "(2::rat) powi (j - k) = of_int (2 ^ nat (j - k))"
    using assms by (simp add: power_int_nonneg_exp)
  finally have "(2::rat) powi j = of_int (2 ^ nat (j - k)) * 2 powi k" .
  then show ?thesis
    using round_at_multiple [of k "2 ^ nat (j - k)"] by simp
qed

definition ulp_exponent :: "rat \<Rightarrow> int" where
  \<comment> \<open>the exponent of the last of the 53 significant bits of a positive magnitude\<close>
  "ulp_exponent a = max (flog2 a) (- 1022) - 52"

lemma ulp_exponent_mono:
  assumes "0 < a" "a \<le> b"
  shows "ulp_exponent a \<le> ulp_exponent b"
  using flog2_mono [OF assms] by (simp add: ulp_exponent_def)

lemma rounded_magnitude_mono:
  assumes "0 < a" "a \<le> b"
  shows "round_at (ulp_exponent a) a \<le> round_at (ulp_exponent b) b"
proof (cases "ulp_exponent a = ulp_exponent b")
  case True
  then show ?thesis
    using round_at_mono [OF assms(2)] by simp
next
  case False
  let ?ea = "ulp_exponent a + 53" and ?eb = "ulp_exponent b + 52"
  from False have lt: "ulp_exponent a < ulp_exponent b"
    using ulp_exponent_mono [OF assms] by simp
  then have eb: "?eb = flog2 b"
    by (auto simp: ulp_exponent_def max_def split: if_splits)
  have "a < 2 powi (flog2 a + 1)"
    using assms(1) by (rule flog2_bounds)
  also have "\<dots> \<le> 2 powi ?ea"
    by (intro power_int_increasing) (simp_all add: ulp_exponent_def)
  finally have a: "a \<le> 2 powi ?ea" by simp
  have b: "2 powi ?eb \<le> b"
    using flog2_bounds(1) [of b] assms by (simp add: eb)
  have "round_at (ulp_exponent a) a \<le> round_at (ulp_exponent a) (2 powi ?ea)"
    using a by (rule round_at_mono)
  also have "\<dots> = 2 powi ?ea"
    by (rule round_at_power) simp
  also have "\<dots> \<le> 2 powi ?eb"
    using lt by (intro power_int_increasing) simp_all
  also have "\<dots> = round_at (ulp_exponent b) (2 powi ?eb)"
    by (rule round_at_power [symmetric]) simp
  also have "\<dots> \<le> round_at (ulp_exponent b) b"
    using b by (rule round_at_mono)
  finally show ?thesis .
qed


lemma round_at_nonneg:
  assumes "0 \<le> a"
  shows "0 \<le> round_at k a"
  using round_at_mono [OF assms, of k] by (simp add: round_at_def round_half_even_def)

lemma round64_positive:
  assumes "0 < x"
  shows "round64 x =
    (if overflow_threshold \<le> round_at (ulp_exponent x) x then PosInf
     else Finite (round_at (ulp_exponent x) x))"
  using assms by (simp add: round64_def Let_def round_at_def ulp_exponent_def)

lemma round64_not_NaN: "round64 x \<noteq> NaN"
  by (simp add: round64_def Let_def)

lemma fle_PosInf: "x \<noteq> NaN \<Longrightarrow> fle x PosInf"
  by (cases x) simp_all

lemma round64_mono:
  assumes "0 \<le> x" "x \<le> y"
  shows "fle (round64 x) (round64 y)"
proof (cases "x = 0")
  case True
  show ?thesis
  proof (cases "y = 0")
    case True
    with \<open>x = 0\<close> show ?thesis by (simp add: round64_def)
  next
    case False
    with assms have "0 < y" by simp
    then show ?thesis
      using round_at_nonneg [of y "ulp_exponent y"] \<open>x = 0\<close>
      by (simp add: round64_positive) (simp add: round64_def)
  qed
next
  case False
  with assms have x: "0 < x" and y: "0 < y" by simp_all
  have "round_at (ulp_exponent x) x \<le> round_at (ulp_exponent y) y"
    using x assms(2) by (rule rounded_magnitude_mono)
  then show ?thesis
    by (simp add: round64_positive x y)
qed

lemma round64_nonneg:
  assumes "0 \<le> x"
  shows "fle (Finite 0) (round64 x)"
  using round64_mono [of 0 x] assms by (simp add: round64_def)

lemma fdiv_mono:
  assumes "fle (Finite 0) x" "fle x y" "0 < c"
  shows "fle (fdiv x (Finite c)) (fdiv y (Finite c))"
    and "fle (Finite 0) (fdiv x (Finite c))"
proof -
  show "fle (fdiv x (Finite c)) (fdiv y (Finite c))"
  proof (cases x)
    case (Finite a)
    with assms(1) have a: "0 \<le> a" by simp
    show ?thesis
    proof (cases y)
      case (Finite b)
      with \<open>x = Finite a\<close> assms have "0 \<le> a / c" "a / c \<le> b / c"
        using a by (simp_all add: divide_right_mono)
      then show ?thesis
        using \<open>x = Finite a\<close> Finite assms(3) by (simp add: round64_mono)
    next
      case PosInf
      then show ?thesis
        using \<open>x = Finite a\<close> assms(3) by (simp add: inf_of_sign_def fle_PosInf round64_not_NaN)
    qed (use assms \<open>x = Finite a\<close> in simp_all)
  next
    case PosInf
    with assms(2) have "y = PosInf" by (cases y) simp_all
    with PosInf assms(3) show ?thesis by (simp add: inf_of_sign_def)
  qed (use assms in simp_all)
  show "fle (Finite 0) (fdiv x (Finite c))"
  proof (cases x)
    case (Finite a)
    with assms have "0 \<le> a / c" by simp
    then show ?thesis
      using Finite assms(3) by (simp add: round64_nonneg)
  next
    case PosInf
    with assms(3) show ?thesis by (simp add: inf_of_sign_def)
  qed (use assms in simp_all)
qed

lemma fmul_mono:
  assumes "fle (Finite 0) x" "fle x y" "0 < c"
  shows "fle (fmul x (Finite c)) (fmul y (Finite c))"
    and "fle (Finite 0) (fmul x (Finite c))"
proof -
  show "fle (fmul x (Finite c)) (fmul y (Finite c))"
  proof (cases x)
    case (Finite a)
    with assms(1) have a: "0 \<le> a" by simp
    show ?thesis
    proof (cases y)
      case (Finite b)
      with \<open>x = Finite a\<close> assms have "0 \<le> a * c" "a * c \<le> b * c"
        using a by (simp_all add: mult_right_mono)
      then show ?thesis
        using \<open>x = Finite a\<close> Finite by (simp add: round64_mono)
    next
      case PosInf
      then show ?thesis
        using \<open>x = Finite a\<close> assms(3) by (simp add: inf_of_sign_def fle_PosInf round64_not_NaN)
    qed (use assms \<open>x = Finite a\<close> in simp_all)
  next
    case PosInf
    with assms(2) have "y = PosInf" by (cases y) simp_all
    with PosInf assms(3) show ?thesis by (simp add: inf_of_sign_def)
  qed (use assms in simp_all)
  show "fle (Finite 0) (fmul x (Finite c))"
  proof (cases x)
    case (Finite a)
    with assms have "0 \<le> a * c" by simp
    then show ?thesis
      using Finite by (simp add: round64_nonneg)
  next
    case PosInf
    with assms(3) show ?thesis by (simp add: inf_of_sign_def)
  qed (use assms in simp_all)
qed

lemma f64_of_int_mono:
  assumes "0 \<le> m" "m \<le> n"
  shows "fle (f64_of_int m) (f64_of_int n)" and "fle (Finite 0) (f64_of_int m)"
  using assms by (simp_all add: f64_of_int_def round64_mono round64_nonneg)

lemma fdiv_not_NaN:
  assumes "x \<noteq> NaN" "c \<noteq> 0"
  shows "fdiv x (Finite c) \<noteq> NaN"
  using assms by (cases x) (simp_all add: round64_not_NaN inf_of_sign_def)

lemma fmul_not_NaN:
  assumes "x \<noteq> NaN" "c \<noteq> 0"
  shows "fmul x (Finite c) \<noteq> NaN"
  using assms by (cases x) (simp_all add: round64_not_NaN inf_of_sign_def)

section \<open>The claims\<close>




text \<open>
  C2.  For a repository whose image listing succeeds with at least one image, the
  findings that \<^verbatim>\<open>scanRepository\<close> adds hold exactly one \<open>UNUSED_REPO\<close> finding when
  every image produced a \<open>STALE_IMAGE\<close> finding, and none otherwise.  That finding is
  scoped to the repository, its waste is the float64 sum, in order and from \<open>0\<close>, of the
  images' monthly storage costs, and its metadata records the number of images.  The
  monthly storage cost of an image is the waste each of its own findings carries.
\<close>

theorem unused_repo_when_all_stale:
  "(ListImages (ECRScanner.client s) (deref (RepositoryName repo)) = Inr images \<and> images \<noteq> [] \<longrightarrow>
      filter (\<lambda>f. ID f = FindingUnusedRepo)
        (drop (length (ScanResult.Findings result))
           (ScanResult.Findings (ECRScanner_scanRepository s cfg repo result))) =
        (if list_all
              (\<lambda>img. \<exists>f\<in>set (ECRScanner_analyzeImage s cfg (deref (RepositoryName repo)) img).
                        ID f = FindingStaleImage) images
         then [\<lparr>ID = FindingUnusedRepo,
                Severity = SeverityLow,
                ResourceType = ResourceRepository,
                ResourceID = deref (RepositoryName repo),
                ResourceName = '''',
                Region = region s,
                Message = Sprintf ''All %d images are stale'' [ArgInt (int (length images))],
                EstimatedMonthlyWaste =
                  foldl fadd (Finite 0)
                    (map (\<lambda>img. MonthlyStorageCost ''ecr'' (region s)
                                   (derefInt64 (ImageSizeInBytes img))) images),
                Metadata = [(''image_count'', MetaInt (int (length images)))]\<rparr>]
         else []))
   \<and>
   (ListDockerImages (ARScanner.client s') (Repository.Name repo') = Inr images' \<and> images' \<noteq> [] \<longrightarrow>
      filter (\<lambda>f. ID f = FindingUnusedRepo)
        (drop (length (ScanResult.Findings result))
           (ScanResult.Findings (ARScanner_scanRepository s' cfg repo' result))) =
        (if list_all
              (\<lambda>img. \<exists>f\<in>set (ARScanner_analyzeImage s' cfg repo' img).
                        ID f = FindingStaleImage) images'
         then [\<lparr>ID = FindingUnusedRepo,
                Severity = SeverityLow,
                ResourceType = ResourceRepository,
                ResourceID = RepoID repo',
                ResourceName = '''',
                Region = Location repo',
                Message = Sprintf ''All %d images are stale'' [ArgInt (int (length images'))],
                EstimatedMonthlyWaste =
                  foldl fadd (Finite 0)
                    (map (\<lambda>img. MonthlyStorageCost ''artifactregistry'' (Location repo')
                                   (SizeBytes img)) images'),
                Metadata = [(''image_count'', MetaInt (int (length images')))]\<rparr>]
         else []))
   \<and>
   map EstimatedMonthlyWaste (ECRScanner_analyzeImage s cfg repoName img) =
     replicate (length (ECRScanner_analyzeImage s cfg repoName img))
       (MonthlyStorageCost ''ecr'' (region s) (derefInt64 (ImageSizeInBytes img)))
   \<and>
   map EstimatedMonthlyWaste (ARScanner_analyzeImage s' cfg repo' img') =
     replicate (length (ARScanner_analyzeImage s' cfg repo' img'))
       (MonthlyStorageCost ''artifactregistry'' (Location repo') (SizeBytes img'))"
  by (simp add: ecr_scanRepository_eq ar_scanRepository_eq ecr_flagged_stale_iff
      ar_flagged_stale_iff ecr_images_no_unused ar_images_no_unused ecr_analyzeImage_waste
      ar_analyzeImage_waste unused_repo_finding_def no_lifecycle_finding_def ecr_costs_def
      ar_costs_def list_all_iff split: sum.split)

theorem unused_repo_when_all_stale_witness:
  "filter (\<lambda>f. ID f = FindingUnusedRepo)
     (ScanResult.Findings
        (ECRScanner_scanRepository ecr_all_stale_scanner defaultCfg (ecr_makeRepo ''old-repo'')
           emptyResult)) =
     [\<lparr>ID = FindingUnusedRepo,
       Severity = SeverityLow,
       ResourceType = ResourceRepository,
       ResourceID = ''old-repo'',
       ResourceName = '''',
       Region = ''us-east-1'',
       Message = Sprintf ''All %d images are stale'' [ArgInt 2],
       EstimatedMonthlyWaste = Finite (3602879701896397 / 36028797018963968),
       Metadata = [(''image_count'', MetaInt 2)]\<rparr>] \<and>
   filter (\<lambda>f. ID f = FindingUnusedRepo)
     (ScanResult.Findings
        (ARScanner_scanRepository ar_all_stale_scanner defaultCfg
           (ar_makeRepo ''projects/my-project/locations/us-central1/repositories/old-repo''
              ''us-central1'' ''old-repo'')
           emptyResult)) =
     [\<lparr>ID = FindingUnusedRepo,
       Severity = SeverityLow,
       ResourceType = ResourceRepository,
       ResourceID = ''old-repo'',
       ResourceName = '''',
       Region = ''us-central1'',
       Message = Sprintf ''All %d images are stale'' [ArgInt 2],
       EstimatedMonthlyWaste = Finite (3602879701896397 / 36028797018963968),
       Metadata = [(''image_count'', MetaInt 2)]\<rparr>] \<and>
   filter (\<lambda>f. ID f = FindingUnusedRepo)
     (ScanResult.Findings
        (ECRScanner_scanRepository ecr_exclude_scanner defaultCfg (ecr_makeRepo ''included'')
           emptyResult)) = []"
proof -
  let ?old = "ecr_makeRepo ''old-repo''" and ?inc = "ecr_makeRepo ''included''"
  let ?q = "ar_makeRepo ''projects/my-project/locations/us-central1/repositories/old-repo''
              ''us-central1'' ''old-repo''"
  let ?i1 = "ecr_makeImage ''sha256:h1'' [''v1''] halfGB stale200 stale120"
  let ?i2 = "ecr_makeImage ''sha256:h2'' [''v2''] halfGB stale200 stale120"
  let ?i3 = "ecr_makeImage ''sha256:iii'' [''latest''] halfGB recent recent"
  let ?j1 = "ar_makeImage ''uri1'' [''v1''] halfGB stale200 ''''"
  let ?j2 = "ar_makeImage ''uri2'' [''v2''] halfGB stale200 ''''"
  have names: "deref (RepositoryName ?old) = ''old-repo''"
    "deref (RepositoryName ?inc) = ''included''"
    "Repository.Name ?q = ''projects/my-project/locations/us-central1/repositories/old-repo''"
    "Location ?q = ''us-central1''" "RepoID ?q = ''old-repo''"
    by (simp_all add: ecr_makeRepo_def ar_makeRepo_def deref_def)
  have scanners: "region ecr_all_stale_scanner = ''us-east-1''"
    "ECRScanner.now ecr_all_stale_scanner = test_now"
    "ECRScanner.now ecr_exclude_scanner = test_now"
    "ARScanner.now ar_all_stale_scanner = test_now"
    by (simp_all add: ecr_all_stale_scanner_def ecr_exclude_scanner_def ar_all_stale_scanner_def
        ecr_newTestScanner_def ar_newTestScanner_def)
  have h1: "ListImages (ECRScanner.client ecr_all_stale_scanner) ''old-repo'' = Inr [?i1, ?i2]"
    by (simp add: ecr_all_stale_scanner_def ecr_newTestScanner_def ecr_mockClient_def)
  have h2: "ListDockerImages (ARScanner.client ar_all_stale_scanner)
              ''projects/my-project/locations/us-central1/repositories/old-repo'' = Inr [?j1, ?j2]"
    by (simp add: ar_all_stale_scanner_def ar_newTestScanner_def ar_mockClient_def)
  have h3: "ListImages (ECRScanner.client ecr_exclude_scanner) ''included'' = Inr [?i3]"
    by (simp add: ecr_exclude_scanner_def ecr_newTestScanner_def ecr_mockClient_def)
  have days: "StaleDays defaultCfg = 90"
    by (simp add: defaultCfg_def)
  have times: "\<not> IsZero stale120" "\<not> IsZero stale200" "\<not> IsZero recent"
    "Before stale120 (AddDate_days test_now (- 90))"
    "Before stale200 (AddDate_days test_now (- 90))"
    "\<not> Before recent (AddDate_days test_now (- 90))"
    using test_times_nonzero test_times_stale by simp_all
  have s1: "ecr_stale ecr_all_stale_scanner defaultCfg ?i1"
    "ecr_stale ecr_all_stale_scanner defaultCfg ?i2"
    "\<not> ecr_stale ecr_exclude_scanner defaultCfg ?i3"
    using times
    by (simp_all add: ecr_stale_def lastActivityTime_def ecr_makeImage_def scanners days)
  have s2: "ar_stale ar_all_stale_scanner defaultCfg ?j1"
    "ar_stale ar_all_stale_scanner defaultCfg ?j2"
    using times by (simp_all add: ar_stale_def ar_makeImage_def scanners days)
  have sizes: "derefInt64 (ImageSizeInBytes ?i1) = halfGB" "derefInt64 (ImageSizeInBytes ?i2) = halfGB"
    "SizeBytes ?j1 = halfGB" "SizeBytes ?j2 = halfGB"
    by (simp_all add: ecr_makeImage_def ar_makeImage_def derefInt64_def)
  have e: "ScanResult.Findings emptyResult = []"
    by (simp add: emptyResult_def)
  show ?thesis
    using
      unused_repo_when_all_stale
        [where s = ecr_all_stale_scanner and repo = ?old and images = "[?i1, ?i2]"
           and cfg = defaultCfg and result = emptyResult
           and s' = ar_all_stale_scanner and repo' = ?q and images' = "[?j1, ?j2]"]
      unused_repo_when_all_stale
        [where s = ecr_exclude_scanner and repo = ?inc and images = "[?i3]"
           and cfg = defaultCfg and result = emptyResult]
    by (simp add: names scanners h1 h2 h3 e ecr_flagged_stale_iff ar_flagged_stale_iff s1 s2
        sizes half_gb_cost_ecr half_gb_cost_ar two_half_gb_costs del: foldl_Cons)
qed

text \<open>
  C3.  The ECR scanner looks for \<open>manifest.list\<close> in the media type only, the Artifact
  Registry scanner for \<open>manifest.list\<close> or \<open>image.index\<close>.  On the same stale image
  whose media type is an OCI image index, the ECR scanner reports the image as stale and
  large but not as multi-architecture bloat; the Artifact Registry scanner reports all
  three.
\<close>

theorem multi_arch_bloat_missed_for_oci_index:
  "map ID (ECRScanner_analyzeImage (ecr_newTestScanner c) defaultCfg ''multiarch''
             ecr_oci_index_image) =
     [FindingStaleImage, FindingLargeImage] \<and>
   map ID (ARScanner_analyzeImage (ar_newTestScanner c') defaultCfg
             (ar_makeRepo ''projects/my-project/locations/us-central1/repositories/multiarch''
                ''us-central1'' ''multiarch'')
             ar_oci_index_image) =
     [FindingStaleImage, FindingLargeImage, FindingMultiArchBloat]"
proof -
  have media: "\<not> Contains oci_index ''manifest.list''" "Contains oci_index ''image.index''"
    by (simp_all add: Contains_def oci_index_def sublist_code(3))
  have times: "\<not> IsZero stale120" "\<not> IsZero stale200"
    "Before stale120 (AddDate_days test_now (- 90))"
    "Before stale200 (AddDate_days test_now (- 90))"
    using test_times_nonzero test_times_stale by simp_all
  have stale: "ecr_stale (ecr_newTestScanner c) defaultCfg ecr_oci_index_image"
    "ar_stale (ar_newTestScanner c') defaultCfg ar_oci_index_image"
    using times
    by (simp_all add: ecr_stale_def ar_stale_def lastActivityTime_def ecr_oci_index_image_def
        ar_oci_index_image_def ecr_makeImage_def ar_makeImage_def ecr_newTestScanner_def
        ar_newTestScanner_def defaultCfg_def)
  have fields: "ImageTags ecr_oci_index_image = [''latest'']"
    "derefInt64 (ImageSizeInBytes ecr_oci_index_image) = twoGB"
    "ImageManifestMediaType ecr_oci_index_image = Some oci_index"
    "Tags ar_oci_index_image = [''latest'']"
    "SizeBytes ar_oci_index_image = twoGB"
    "MediaType ar_oci_index_image = oci_index"
    "MaxSizeBytes defaultCfg = oneGB"
    by (simp_all add: ecr_oci_index_image_def ar_oci_index_image_def ecr_makeImage_def
        ar_makeImage_def derefInt64_def defaultCfg_def)
  have sizes: "0 < oneGB" "oneGB < twoGB"
    by (simp_all add: oneGB_def twoGB_def)
  show ?thesis
    by (simp add: ids_of_kinds ecr_analyzeImage_kinds ar_analyzeImage_kinds stale fields sizes
        media deref_def)
qed

text \<open>
  C4.  As stated the claim fails for the vulnerability lookup: when
  \<^verbatim>\<open>DescribeImageScanFindings\<close> fails, \<^verbatim>\<open>ScanVulnerabilities\<close> returns no finding and
  no error, so no error string reaches any error list.
\<close>

theorem per_repository_failure_counterexample:
  "DescribeImageScanFindings (ECRScanner.client ecr_scan_lookup_fails_scanner)
     ''myapp'' ''sha256:vuln'' = Inl ''scan not found'' \<and>
   ECRScanner_ScanVulnerabilities ecr_scan_lookup_fails_scanner ''myapp'' ''sha256:vuln'' =
     ([], None)"
  by (simp add: ECRScanner_ScanVulnerabilities_def ecr_scan_lookup_fails_scanner_def
      ecr_newTestScanner_def ecr_mockClient_def)

text \<open>
  C4, amended.  When the image listing of one repository fails (either scanner), exactly
  one error string is appended to the result and nothing else changes.  When the ECR
  lifecycle lookup fails for a repository that has images, exactly one error string is
  appended and the rest of the result is what the same repository gives with a policy in
  place: its images are classified all the same.  After any repository that is not
  excluded, the loop goes on with the remaining ones.  A failing vulnerability lookup
  yields no finding and no error.
\<close>

theorem per_repository_failure:
  "(ListImages (ECRScanner.client s) (deref (RepositoryName repo)) = Inl err \<longrightarrow>
      ECRScanner_scanRepository s cfg repo result =
        result\<lparr>ScanResult.Errors := ScanResult.Errors result @
          [region s @ ''/'' @ deref (RepositoryName repo) @ '': '' @ err]\<rparr>)
   \<and>
   (ListImages (ECRScanner.client s) (deref (RepositoryName repo)) = Inr images \<and>
    images \<noteq> [] \<and>
    HasLifecyclePolicy (ECRScanner.client s) (deref (RepositoryName repo)) = Inl err \<longrightarrow>
      ECRScanner_scanRepository s cfg repo result =
        (ECRScanner_scanRepository
           (s\<lparr>ECRScanner.client :=
                (ECRScanner.client s)\<lparr>HasLifecyclePolicy := (\<lambda>name. Inr True)\<rparr>\<rparr>)
           cfg repo result)
        \<lparr>ScanResult.Errors := ScanResult.Errors result @
           [region s @ ''/'' @ deref (RepositoryName repo) @ '' lifecycle: '' @ err]\<rparr>)
   \<and>
   (ListDockerImages (ARScanner.client s') (Repository.Name repo') = Inl err \<longrightarrow>
      ARScanner_scanRepository s' cfg repo' result =
        result\<lparr>ScanResult.Errors := ScanResult.Errors result @
          [Location repo' @ ''/'' @ RepoID repo' @ '': '' @ err]\<rparr>)
   \<and>
   (\<not> excluded cfg (deref (RepositoryName repo)) \<longrightarrow>
      ECRScanner_scanRepos s cfg (repo # repos) result =
        ECRScanner_scanRepos s cfg repos (ECRScanner_scanRepository s cfg repo result))
   \<and>
   (\<not> excluded cfg (RepoID repo') \<longrightarrow>
      ARScanner_scanRepos s' cfg (repo' # repos') result =
        ARScanner_scanRepos s' cfg repos' (ARScanner_scanRepository s' cfg repo' result))
   \<and>
   (DescribeImageScanFindings (ECRScanner.client s) repoName digest = Inl err \<longrightarrow>
      ECRScanner_ScanVulnerabilities s repoName digest = ([], None))"
proof -
  have stale: "ecr_stale (s\<lparr>ECRScanner.client := c\<rparr>) cfg = ecr_stale s cfg" for c
    by (rule ext) (simp add: ecr_stale_def split: option.split)
  have img: "ECRScanner_analyzeImage (s\<lparr>ECRScanner.client := c\<rparr>) cfg n = ECRScanner_analyzeImage s cfg n" for c n
    by (rule ext) (simp add: ECRScanner_analyzeImage_def Let_def split: option.split)
  have costs: "ecr_costs (s\<lparr>ECRScanner.client := c\<rparr>) = ecr_costs s" for c
    by (rule ext) (simp add: ecr_costs_def)
  show ?thesis
    by (simp add: ecr_scanRepository_eq ar_scanRepository_eq ECRScanner_ScanVulnerabilities_def
        stale img costs Let_def)
qed


theorem per_repository_failure_witness:
  "ECRScanner_scanRepository ecr_images_fail_scanner defaultCfg (ecr_makeRepo ''broken-repo'')
     emptyResult =
     emptyResult\<lparr>ScanResult.Errors :=
       [''us-east-1/broken-repo: describe images for broken-repo: throttled'']\<rparr> \<and>
   ECRScanner_scanRepository ecr_lifecycle_fails_scanner defaultCfg (ecr_makeRepo ''myapp'')
     emptyResult =
     (ECRScanner_scanRepository
        (ecr_lifecycle_fails_scanner\<lparr>ECRScanner.client :=
           (ECRScanner.client ecr_lifecycle_fails_scanner)
             \<lparr>HasLifecyclePolicy := (\<lambda>name. Inr True)\<rparr>\<rparr>)
        defaultCfg (ecr_makeRepo ''myapp'') emptyResult)
     \<lparr>ScanResult.Errors :=
        [''us-east-1/myapp lifecycle: get lifecycle policy for myapp: access denied'']\<rparr> \<and>
   ARScanner_scanRepository ar_images_fail_scanner defaultCfg
     (ar_makeRepo ''projects/my-project/locations/us-central1/repositories/broken''
        ''us-central1'' ''broken'')
     emptyResult =
     emptyResult\<lparr>ScanResult.Errors := [''us-central1/broken: timeout'']\<rparr> \<and>
   ECRScanner_scanRepos ecr_images_fail_scanner defaultCfg [ecr_makeRepo ''broken-repo'']
     emptyResult =
     ECRScanner_scanRepository ecr_images_fail_scanner defaultCfg (ecr_makeRepo ''broken-repo'')
       emptyResult \<and>
   ARScanner_scanRepos ar_images_fail_scanner defaultCfg
     [ar_makeRepo ''projects/my-project/locations/us-central1/repositories/broken''
        ''us-central1'' ''broken'']
     emptyResult =
     ARScanner_scanRepository ar_images_fail_scanner defaultCfg
       (ar_makeRepo ''projects/my-project/locations/us-central1/repositories/broken''
          ''us-central1'' ''broken'')
       emptyResult \<and>
   ECRScanner_ScanVulnerabilities ecr_scan_lookup_fails_scanner ''myapp'' ''sha256:vuln'' =
     ([], None)"
proof -
  let ?broken = "ecr_makeRepo ''broken-repo''" and ?myapp = "ecr_makeRepo ''myapp''"
  let ?q = "ar_makeRepo ''projects/my-project/locations/us-central1/repositories/broken''
              ''us-central1'' ''broken''"
  let ?img = "ecr_makeImage ''sha256:cost'' [] oneGB recent recent"
  have names: "deref (RepositoryName ?broken) = ''broken-repo''"
    "deref (RepositoryName ?myapp) = ''myapp''"
    "Repository.Name ?q = ''projects/my-project/locations/us-central1/repositories/broken''"
    "Location ?q = ''us-central1''" "RepoID ?q = ''broken''"
    by (simp_all add: ecr_makeRepo_def ar_makeRepo_def deref_def)
  have regions: "region ecr_images_fail_scanner = ''us-east-1''"
    "region ecr_lifecycle_fails_scanner = ''us-east-1''"
    by (simp_all add: ecr_images_fail_scanner_def ecr_lifecycle_fails_scanner_def
        ecr_newTestScanner_def)
  have h1: "ListImages (ECRScanner.client ecr_images_fail_scanner) ''broken-repo'' =
              Inl ''describe images for broken-repo: throttled''"
    by (simp add: ecr_images_fail_scanner_def ecr_newTestScanner_def ecr_mockClient_def)
  have h2: "ListImages (ECRScanner.client ecr_lifecycle_fails_scanner) ''myapp'' = Inr [?img]"
    "HasLifecyclePolicy (ECRScanner.client ecr_lifecycle_fails_scanner) ''myapp'' =
       Inl ''get lifecycle policy for myapp: access denied''"
    by (simp_all add: ecr_lifecycle_fails_scanner_def ecr_newTestScanner_def ecr_mockClient_def)
  have h3: "ListDockerImages (ARScanner.client ar_images_fail_scanner)
              ''projects/my-project/locations/us-central1/repositories/broken'' = Inl ''timeout''"
    by (simp add: ar_images_fail_scanner_def ar_newTestScanner_def ar_mockClient_def)
  have h4: "\<not> excluded defaultCfg ''broken-repo''" "\<not> excluded defaultCfg ''broken''"
    by (simp_all add: excluded_def defaultCfg_def)
  have h6: "DescribeImageScanFindings (ECRScanner.client ecr_scan_lookup_fails_scanner)
              ''myapp'' ''sha256:vuln'' = Inl ''scan not found''"
    by (simp add: ecr_scan_lookup_fails_scanner_def ecr_newTestScanner_def ecr_mockClient_def)
  have e: "ScanResult.Errors emptyResult = []"
    by (simp add: emptyResult_def)
  show ?thesis
    using
      per_repository_failure
        [where s = ecr_images_fail_scanner and repo = ?broken
           and err = "''describe images for broken-repo: throttled''"
           and cfg = defaultCfg and result = emptyResult and repos = "[]"
           and s' = ar_images_fail_scanner and repo' = ?q and repos' = "[]"]
      per_repository_failure
        [where s = ecr_lifecycle_fails_scanner and repo = ?myapp
           and err = "''get lifecycle policy for myapp: access denied''"
           and cfg = defaultCfg and result = emptyResult and images = "[?img]"]
      per_repository_failure
        [where s' = ar_images_fail_scanner and repo' = ?q and err = "''timeout''"
           and cfg = defaultCfg and result = emptyResult]
      per_repository_failure
        [where s = ecr_scan_lookup_fails_scanner and repoName = "''myapp''"
           and digest = "''sha256:vuln''" and err = "''scan not found''"]
    by (simp add: names regions h1 h2 h3 h4 h6 e)
qed

text \<open>
  C5.  For every scan result and every threshold, \<^verbatim>\<open>Analyze\<close> returns a result: it keeps,
  in order, exactly the findings whose waste is \<open>>=\<close> the threshold; the total waste is
  the float64 sum, in order and from \<open>0\<close>, over the kept findings; both histograms
  count the kept findings only (a key with no finding is absent); the error strings and
  the two counters pass through unchanged.  A finding whose waste is the threshold
  itself is kept (a NaN waste compares false with everything, itself included).
\<close>

theorem analyze_filters_and_summarises:
  "(let kept = filter (\<lambda>f. fge (EstimatedMonthlyWaste f) (AnalyzerConfig.MinMonthlyCost cfg))
                 (ScanResult.Findings result);
        a = Analyze result cfg
    in AnalysisResult.Findings a = kept \<and>
       AnalysisResult.Errors a = ScanResult.Errors result \<and>
       TotalFindings (Summary a) = length kept \<and>
       TotalMonthlyWaste (Summary a) = foldl fadd (Finite 0) (map EstimatedMonthlyWaste kept) \<and>
       (\<forall>k. BySeverity (Summary a) k =
             (let n = length (filter (\<lambda>f. Severity_string (Severity f) = k) kept)
              in if n = 0 then None else Some n)) \<and>
       (\<forall>k. ByResourceType (Summary a) k =
             (let n = length (filter (\<lambda>f. ResourceType_string (ResourceType f) = k) kept)
              in if n = 0 then None else Some n)) \<and>
       TotalResourcesScanned (Summary a) = ResourcesScanned result \<and>
       Summary.RepositoriesScanned (Summary a) = ScanResult.RepositoriesScanned result)
   \<and>
   AnalysisResult.Findings
     (Analyze (result\<lparr>ScanResult.Findings := [f]\<rparr>)
        \<lparr>AnalyzerConfig.MinMonthlyCost = EstimatedMonthlyWaste f\<rparr>) =
     (if EstimatedMonthlyWaste f = NaN then [] else [f])"
proof -
  have refl: "fge w w \<longleftrightarrow> w \<noteq> NaN" for w
    by (cases w) (simp_all add: fge_def)
  show ?thesis
    by (simp add: Analyze_def Let_def filterFindings_eq summarize_eq histogram_eq refl)
qed

text \<open>
  C6.  For every provider, region and size, \<^verbatim>\<open>MonthlyStorageCost\<close> is the size, converted
  to float64 and divided by \<open>2 ^ 30\<close>, times the per-GB rate, each operation rounded as
  float64 arithmetic rounds; the rate is the one found by looking up the exact
  (provider, region), then (provider, "default"), then the global default.  The result
  is never a NaN, whatever the provider and the region, and zero bytes cost exactly
  zero.  The order of the lookup does not show on the table of the program, where every
  rate is the same; it is stated for every table that \<^verbatim>\<open>StorageCosts\<close> could hold: a rate
  under the exact region wins, the provider's default comes next, and the default of
  ECR, the global default, is the rate of a provider that is not in the table.  The
  table of the program, like every table with a default for each of its providers, is
  looked up as the specification says.
\<close>

theorem monthly_cost_formula:
  "MonthlyStorageCost provider rgn sizeBytes =
     fmul (fdiv (f64_of_int sizeBytes) (Finite (2 ^ 30))) (spec_rate StorageCosts provider rgn) \<and>
   lookupCostPerGB provider rgn = spec_rate StorageCosts provider rgn \<and>
   MonthlyStorageCost provider rgn sizeBytes \<noteq> NaN \<and>
   MonthlyStorageCost provider rgn 0 = Finite 0 \<and>
   lookupCostPerGB provider rgn = lookupCostPerGB_in StorageCosts provider rgn \<and>
   has_defaults StorageCosts \<and>
   (has_defaults costs \<longrightarrow>
      lookupCostPerGB_in costs provider rgn = spec_rate costs provider rgn) \<and>
   (costs provider = Some providerCosts \<and> providerCosts rgn = Some cost \<longrightarrow>
      lookupCostPerGB_in costs provider rgn = cost) \<and>
   (costs provider = Some providerCosts \<and> providerCosts rgn = None \<and>
    providerCosts ''default'' = Some cost \<longrightarrow>
      lookupCostPerGB_in costs provider rgn = cost) \<and>
   (costs provider = None \<and> costs ''ecr'' = Some ecrCosts \<and> ecrCosts ''default'' = Some cost \<longrightarrow>
      lookupCostPerGB_in costs provider rgn = cost)"
proof -
  have "fmul (fdiv (f64_of_int sizeBytes) (Finite (2 ^ 30)))
          (Finite (3602879701896397 / 36028797018963968)) \<noteq> NaN"
    by (intro fmul_not_NaN fdiv_not_NaN) (simp_all add: f64_of_int_def round64_not_NaN)
  then have program: "MonthlyStorageCost provider rgn sizeBytes =
     fmul (fdiv (f64_of_int sizeBytes) (Finite (2 ^ 30))) (spec_rate StorageCosts provider rgn) \<and>
   lookupCostPerGB provider rgn = spec_rate StorageCosts provider rgn \<and>
   MonthlyStorageCost provider rgn sizeBytes \<noteq> NaN \<and>
   MonthlyStorageCost provider rgn 0 = Finite 0"
    by (simp add: MonthlyStorageCost_def Let_def lookupCostPerGB_const spec_rate_const
        f64_of_int_def round64_zero rate_0_10_value)
  have tiers: "costs provider = Some providerCosts \<and> providerCosts rgn = Some cost \<longrightarrow>
      lookupCostPerGB_in costs provider rgn = cost"
    "costs provider = Some providerCosts \<and> providerCosts rgn = None \<and>
    providerCosts ''default'' = Some cost \<longrightarrow>
      lookupCostPerGB_in costs provider rgn = cost"
    "costs provider = None \<and> costs ''ecr'' = Some ecrCosts \<and> ecrCosts ''default'' = Some cost \<longrightarrow>
      lookupCostPerGB_in costs provider rgn = cost"
    by (simp_all add: lookupCostPerGB_in_def index_costs_def index_provider_def)
  have var: "lookupCostPerGB provider rgn = lookupCostPerGB_in StorageCosts provider rgn"
    by (simp add: lookupCostPerGB_def)
  have spec: "has_defaults costs \<longrightarrow>
      lookupCostPerGB_in costs provider rgn = spec_rate costs provider rgn"
    by (simp add: lookupCostPerGB_in_spec_rate)
  from program var has_defaults_StorageCosts spec tiers show ?thesis
    by blast
qed

theorem monthly_cost_formula_witness:
  "has_defaults three_rate_costs \<and>
   lookupCostPerGB_in three_rate_costs ''ecr'' ''us-east-1'' = Finite (1 / 4) \<and>
   spec_rate three_rate_costs ''ecr'' ''us-east-1'' = Finite (1 / 4) \<and>
   lookupCostPerGB_in three_rate_costs ''ecr'' ''eu-west-1'' = Finite (1 / 2) \<and>
   spec_rate three_rate_costs ''ecr'' ''eu-west-1'' = Finite (1 / 2) \<and>
   lookupCostPerGB_in three_rate_costs ''artifactregistry'' ''us-east-1'' = Finite 1 \<and>
   lookupCostPerGB_in three_rate_costs ''unknown'' ''us-east-1'' = Finite (1 / 2) \<and>
   spec_rate three_rate_costs ''unknown'' ''us-east-1'' = Finite (1 / 2)"
proof -
  let ?ecr = "[''us-east-1'' \<mapsto> Finite (1 / 4), ''default'' \<mapsto> Finite (1 / 2)]"
  let ?ar = "[''default'' \<mapsto> Finite 1]"
  have d: "has_defaults three_rate_costs"
    by (auto simp: has_defaults_def three_rate_costs_def split: if_splits)
  have t: "three_rate_costs ''ecr'' = Some ?ecr" "three_rate_costs ''artifactregistry'' = Some ?ar"
    "three_rate_costs ''unknown'' = None"
    by (simp_all add: three_rate_costs_def)
  note exact = monthly_cost_formula [where costs = three_rate_costs and provider = "''ecr''"
      and rgn = "''us-east-1''" and providerCosts = ?ecr and cost = "Finite (1 / 4)"]
  note dflt = monthly_cost_formula [where costs = three_rate_costs and provider = "''ecr''"
      and rgn = "''eu-west-1''" and providerCosts = ?ecr and cost = "Finite (1 / 2)"]
  note other = monthly_cost_formula [where costs = three_rate_costs
      and provider = "''artifactregistry''" and rgn = "''us-east-1''" and providerCosts = ?ar
      and cost = "Finite 1"]
  note global = monthly_cost_formula [where costs = three_rate_costs and provider = "''unknown''"
      and rgn = "''us-east-1''" and ecrCosts = ?ecr and cost = "Finite (1 / 2)"]
  have "lookupCostPerGB_in three_rate_costs ''ecr'' ''us-east-1'' = Finite (1 / 4)"
    using exact t by simp
  moreover have "lookupCostPerGB_in three_rate_costs ''ecr'' ''eu-west-1'' = Finite (1 / 2)"
    using dflt t by simp
  moreover have "lookupCostPerGB_in three_rate_costs ''artifactregistry'' ''us-east-1'' = Finite 1"
    using other t by simp
  moreover have "lookupCostPerGB_in three_rate_costs ''unknown'' ''us-east-1'' = Finite (1 / 2)"
    using global t by simp
  moreover have "spec_rate three_rate_costs ''ecr'' ''us-east-1'' =
      lookupCostPerGB_in three_rate_costs ''ecr'' ''us-east-1''"
    "spec_rate three_rate_costs ''ecr'' ''eu-west-1'' =
      lookupCostPerGB_in three_rate_costs ''ecr'' ''eu-west-1''"
    "spec_rate three_rate_costs ''unknown'' ''us-east-1'' =
      lookupCostPerGB_in three_rate_costs ''unknown'' ''us-east-1''"
    using exact dflt global d by simp_all
  ultimately show ?thesis
    using d by simp
qed

text \<open>
  C7.  For a fixed provider and region, \<^verbatim>\<open>MonthlyStorageCost\<close> is monotonically
  non-decreasing in the size over the non-negative sizes, and non-negative there, in
  float64's own order.
\<close>

theorem monthly_cost_monotone:
  "(0 \<le> s1 \<and> s1 \<le> s2 \<longrightarrow>
      fle (MonthlyStorageCost provider rgn s1) (MonthlyStorageCost provider rgn s2)) \<and>
   (0 \<le> s \<longrightarrow> fle (Finite 0) (MonthlyStorageCost provider rgn s))"
proof -
  have gib: "(0::rat) < 1024 * 1024 * 1024" and rate: "(0::rat) < 3602879701896397 / 36028797018963968"
    by simp_all
  have mono: "fle (MonthlyStorageCost provider rgn m) (MonthlyStorageCost provider rgn n)"
    and nonneg: "fle (Finite 0) (MonthlyStorageCost provider rgn m)"
    if "0 \<le> m" "m \<le> n" for m n
  proof -
    note i = f64_of_int_mono [OF that]
    note d = fdiv_mono [OF i(2) i(1) gib]
    note m = fmul_mono [OF d(2) d(1) rate]
    show "fle (MonthlyStorageCost provider rgn m) (MonthlyStorageCost provider rgn n)"
      using m(1) by (simp add: MonthlyStorageCost_def Let_def lookupCostPerGB_const rate_0_10_value)
    show "fle (Finite 0) (MonthlyStorageCost provider rgn m)"
      using m(2) by (simp add: MonthlyStorageCost_def Let_def lookupCostPerGB_const rate_0_10_value)
  qed
  show ?thesis
    using mono [of s1 s2] nonneg [of s s] by simp
qed

theorem monthly_cost_monotone_witness:
  "fle (MonthlyStorageCost ''ecr'' ''us-east-1'' hundredMB)
       (MonthlyStorageCost ''ecr'' ''us-east-1'' oneGB) \<and>
   fle (Finite 0) (MonthlyStorageCost ''artifactregistry'' ''unknown-region'' oneGB)"
  using monthly_cost_monotone [of hundredMB oneGB "''ecr''" "''us-east-1''"]
    monthly_cost_monotone [where s = oneGB and provider = "''artifactregistry''"
      and rgn = "''unknown-region''"]
  by (simp add: hundredMB_def oneGB_def)

text \<open>
  C8.  As stated (the returned result has zero findings and exactly one error string
  whenever a repository listing fails) the claim fails for the Artifact Registry
  scanner, which scans several locations into one result: after the listing of one
  location has failed it goes on with the next.
\<close>

theorem repository_listing_failure_counterexample:
  "ARAPI.ListRepositories (ARScanner.client ar_two_locations_scanner)
     (project ar_two_locations_scanner) ''us-central1'' = Inl ''permission denied'' \<and>
   ARScanner_Scan ar_two_locations_scanner defaultCfg =
     \<lparr>ScanResult.Findings =
        [\<lparr>ID = FindingUnusedRepo,
          Severity = SeverityLow,
          ResourceType = ResourceRepository,
          ResourceID = ''empty-repo'',
          ResourceName = '''',
          Region = ''europe-west1'',
          Message = Literal ''Repository has no Docker images'',
          EstimatedMonthlyWaste = Finite 0,
          Metadata = []\<rparr>],
      ScanResult.Errors = [''us-central1: permission denied''],
      ResourcesScanned = 0,
      ScanResult.RepositoriesScanned = 1\<rparr>"
  by (simp add: ARScanner_Scan_def ARScanner_scanLocation_def ar_scanRepository_eq
      ar_two_locations_scanner_def ar_newTestScanner_def ar_mockClient_def ar_makeRepo_def
      defaultCfg_def excluded_def emptyResult_def empty_repo_finding_def)

text \<open>
  C8, amended.  A failing repository listing ends the scan of that region or location
  with exactly one error string appended and nothing classified.  The ECR scanner (one
  region for each scan) returns zero findings, that one error string and zero counters.
  The Artifact Registry scanner appends the one error string for the location and goes
  on with the remaining locations: its result is the scan of the locations after the
  failing one, started from what the locations before it gave with the error string
  appended.  It has zero findings and exactly one error string when the failing
  location is the only one.
\<close>

theorem repository_listing_failure:
  "(ECRAPI.ListRepositories (ECRScanner.client s) = Inl err \<longrightarrow>
      ECRScanner_Scan s cfg =
        \<lparr>ScanResult.Findings = [],
         ScanResult.Errors = [region s @ '': '' @ err],
         ResourcesScanned = 0,
         ScanResult.RepositoriesScanned = 0\<rparr>)
   \<and>
   (ARAPI.ListRepositories (ARScanner.client s') (project s') location = Inl err' \<longrightarrow>
      ARScanner_scanLocation s' cfg location result =
        result\<lparr>ScanResult.Errors := ScanResult.Errors result @ [location @ '': '' @ err']\<rparr> \<and>
      (locations s' = [location] \<longrightarrow>
         ARScanner_Scan s' cfg =
           \<lparr>ScanResult.Findings = [],
            ScanResult.Errors = [location @ '': '' @ err'],
            ResourcesScanned = 0,
            ScanResult.RepositoriesScanned = 0\<rparr>) \<and>
      (locations s' = earlier @ location # rest \<longrightarrow>
         ARScanner_Scan s' cfg =
           ARScanner_scanLocations s' cfg rest
             ((ARScanner_scanLocations s' cfg earlier emptyResult)
                \<lparr>ScanResult.Errors :=
                   ScanResult.Errors (ARScanner_scanLocations s' cfg earlier emptyResult) @
                   [location @ '': '' @ err']\<rparr>)))"
  by (simp add: ECRScanner_Scan_def ARScanner_Scan_def ARScanner_scanLocation_def emptyResult_def
      ar_scanLocations_append)

theorem repository_listing_failure_witness:
  "ECRScanner_Scan ecr_listing_fails_scanner defaultCfg =
     \<lparr>ScanResult.Findings = [],
      ScanResult.Errors = [''us-east-1: describe repositories: access denied''],
      ResourcesScanned = 0,
      ScanResult.RepositoriesScanned = 0\<rparr> \<and>
   ARScanner_scanLocation ar_listing_fails_scanner defaultCfg ''us-central1'' emptyResult =
     emptyResult\<lparr>ScanResult.Errors := [''us-central1: permission denied'']\<rparr> \<and>
   ARScanner_Scan ar_listing_fails_scanner defaultCfg =
     \<lparr>ScanResult.Findings = [],
      ScanResult.Errors = [''us-central1: permission denied''],
      ResourcesScanned = 0,
      ScanResult.RepositoriesScanned = 0\<rparr> \<and>
   ARScanner_Scan ar_three_locations_scanner defaultCfg =
     ARScanner_scanLocations ar_three_locations_scanner defaultCfg [''asia-east1'']
       ((ARScanner_scanLocations ar_three_locations_scanner defaultCfg [''europe-west1''] emptyResult)
          \<lparr>ScanResult.Errors := [''us-central1: permission denied'']\<rparr>) \<and>
   map ResourceID (ScanResult.Findings (ARScanner_Scan ar_three_locations_scanner defaultCfg)) =
     [''empty-repo'', ''other-repo''] \<and>
   ScanResult.Errors (ARScanner_Scan ar_three_locations_scanner defaultCfg) =
     [''us-central1: permission denied''] \<and>
   ScanResult.RepositoriesScanned (ARScanner_Scan ar_three_locations_scanner defaultCfg) = 2"
proof -
  have l1: "ECRAPI.ListRepositories (ECRScanner.client ecr_listing_fails_scanner) =
              Inl ''describe repositories: access denied''"
    and r1: "region ecr_listing_fails_scanner = ''us-east-1''"
    by (simp_all add: ecr_listing_fails_scanner_def ecr_newTestScanner_def ecr_mockClient_def)
  have l2: "ARAPI.ListRepositories (ARScanner.client ar_listing_fails_scanner)
              (project ar_listing_fails_scanner) ''us-central1'' = Inl ''permission denied''"
    and l3: "locations ar_listing_fails_scanner = [''us-central1'']"
    by (simp_all add: ar_listing_fails_scanner_def ar_newTestScanner_def ar_mockClient_def)
  have l4: "ARAPI.ListRepositories (ARScanner.client ar_three_locations_scanner)
              (project ar_three_locations_scanner) ''us-central1'' = Inl ''permission denied''"
    and l5: "locations ar_three_locations_scanner = [''europe-west1''] @ ''us-central1'' # [''asia-east1'']"
    by (simp_all add: ar_three_locations_scanner_def ar_newTestScanner_def ar_mockClient_def)
  have e: "ScanResult.Errors emptyResult = []"
    by (simp add: emptyResult_def)
  have first: "ARScanner_scanLocations ar_three_locations_scanner defaultCfg [''europe-west1'']
                 emptyResult =
     \<lparr>ScanResult.Findings =
        [empty_repo_finding ''empty-repo'' ''europe-west1'' ''Repository has no Docker images''],
      ScanResult.Errors = [],
      ResourcesScanned = 0,
      ScanResult.RepositoriesScanned = 1\<rparr>"
    by (simp add: ARScanner_scanLocation_def ar_scanRepository_eq ar_three_locations_scanner_def
        ar_newTestScanner_def ar_mockClient_def ar_makeRepo_def defaultCfg_def excluded_def
        emptyResult_def)
  have third: "ARScanner_scanLocations ar_three_locations_scanner defaultCfg [''asia-east1'']
     (\<lparr>ScanResult.Findings =
        [empty_repo_finding ''empty-repo'' ''europe-west1'' ''Repository has no Docker images''],
      ScanResult.Errors = [],
      ResourcesScanned = 0,
      ScanResult.RepositoriesScanned = 1\<rparr>
      \<lparr>ScanResult.Errors := [''us-central1: permission denied'']\<rparr>) =
     \<lparr>ScanResult.Findings =
        [empty_repo_finding ''empty-repo'' ''europe-west1'' ''Repository has no Docker images'',
         empty_repo_finding ''other-repo'' ''asia-east1'' ''Repository has no Docker images''],
      ScanResult.Errors = [''us-central1: permission denied''],
      ResourcesScanned = 0,
      ScanResult.RepositoriesScanned = 2\<rparr>"
    by (simp add: ARScanner_scanLocation_def ar_scanRepository_eq ar_three_locations_scanner_def
        ar_newTestScanner_def ar_mockClient_def ar_makeRepo_def defaultCfg_def excluded_def)
  have one: "ECRScanner_Scan ecr_listing_fails_scanner defaultCfg =
     \<lparr>ScanResult.Findings = [],
      ScanResult.Errors = [''us-east-1: describe repositories: access denied''],
      ResourcesScanned = 0,
      ScanResult.RepositoriesScanned = 0\<rparr> \<and>
   ARScanner_scanLocation ar_listing_fails_scanner defaultCfg ''us-central1'' emptyResult =
     emptyResult\<lparr>ScanResult.Errors := [''us-central1: permission denied'']\<rparr> \<and>
   ARScanner_Scan ar_listing_fails_scanner defaultCfg =
     \<lparr>ScanResult.Findings = [],
      ScanResult.Errors = [''us-central1: permission denied''],
      ResourcesScanned = 0,
      ScanResult.RepositoriesScanned = 0\<rparr>"
    using repository_listing_failure
      [where s = ecr_listing_fails_scanner and err = "''describe repositories: access denied''"
         and cfg = defaultCfg and s' = ar_listing_fails_scanner and location = "''us-central1''"
         and err' = "''permission denied''" and result = emptyResult]
    by (simp add: l1 l2 l3 r1 e)
  have goes_on: "ARScanner_Scan ar_three_locations_scanner defaultCfg =
     ARScanner_scanLocations ar_three_locations_scanner defaultCfg [''asia-east1'']
       ((ARScanner_scanLocations ar_three_locations_scanner defaultCfg [''europe-west1''] emptyResult)
          \<lparr>ScanResult.Errors := [''us-central1: permission denied'']\<rparr>)"
    using repository_listing_failure
      [where cfg = defaultCfg and s' = ar_three_locations_scanner and location = "''us-central1''"
         and err' = "''permission denied''" and earlier = "[''europe-west1'']"
         and rest = "[''asia-east1'']"] l4 l5
    by (simp add: first del: ARScanner_scanLocations.simps)
  then have result: "ARScanner_Scan ar_three_locations_scanner defaultCfg =
     \<lparr>ScanResult.Findings =
        [empty_repo_finding ''empty-repo'' ''europe-west1'' ''Repository has no Docker images'',
         empty_repo_finding ''other-repo'' ''asia-east1'' ''Repository has no Docker images''],
      ScanResult.Errors = [''us-central1: permission denied''],
      ResourcesScanned = 0,
      ScanResult.RepositoriesScanned = 2\<rparr>"
    by (simp only: first third)
  have rest: "map ResourceID (ScanResult.Findings (ARScanner_Scan ar_three_locations_scanner defaultCfg)) =
     [''empty-repo'', ''other-repo'']"
    "ScanResult.Errors (ARScanner_Scan ar_three_locations_scanner defaultCfg) =
     [''us-central1: permission denied'']"
    "ScanResult.RepositoriesScanned (ARScanner_Scan ar_three_locations_scanner defaultCfg) = 2"
    by (simp_all add: result empty_repo_finding_def)
  from one goes_on rest show ?thesis
    by blast
qed

text \<open>
  C9.  Whatever the registry returns and whatever the configuration, the result of an
  Artifact Registry scan holds no finding whose ID is \<open>NO_LIFECYCLE_POLICY\<close> and none
  whose ID is \<open>VULNERABLE_IMAGE\<close>.
\<close>

theorem gcp_scan_has_no_ecr_only_findings:
  "filter (\<lambda>f. ID f = FindingNoLifecyclePolicy \<or> ID f = FindingVulnerableImage)
     (ScanResult.Findings (ARScanner_Scan s cfg)) = []"
  using ar_scanLocations_ecr_only [of s cfg "locations s" emptyResult]
  by (simp add: ARScanner_Scan_def emptyResult_def ecr_only_def [abs_def])

text \<open>
  C10.  When the listing of repositories succeeds, \<open>RepositoriesScanned\<close> counts every
  repository the listing returned, the excluded ones too (the Artifact Registry scanner
  adds the count of each location it could list), and the scan is the one of the
  repositories that are not excluded, taken in order: an excluded repository adds no
  finding, no error string and nothing to \<open>ResourcesScanned\<close>.
\<close>

theorem repositories_scanned_counts_excluded:
  "(ECRAPI.ListRepositories (ECRScanner.client s) = Inr repos \<longrightarrow>
      ScanResult.RepositoriesScanned (ECRScanner_Scan s cfg) = length repos \<and>
      ECRScanner_Scan s cfg =
        foldl (\<lambda>res repo. ECRScanner_scanRepository s cfg repo res)
          (emptyResult\<lparr>ScanResult.RepositoriesScanned := length repos\<rparr>)
          (filter (\<lambda>repo. \<not> excluded cfg (deref (RepositoryName repo))) repos))
   \<and>
   (ARAPI.ListRepositories (ARScanner.client s') (project s') location = Inr repos' \<longrightarrow>
      ScanResult.RepositoriesScanned (ARScanner_scanLocation s' cfg location result) =
        ScanResult.RepositoriesScanned result + length repos' \<and>
      ARScanner_scanLocation s' cfg location result =
        foldl (\<lambda>res repo. ARScanner_scanRepository s' cfg repo res)
          (result\<lparr>ScanResult.RepositoriesScanned :=
             ScanResult.RepositoriesScanned result + length repos'\<rparr>)
          (filter (\<lambda>repo. \<not> excluded cfg (RepoID repo)) repos'))
   \<and>
   ScanResult.RepositoriesScanned (ARScanner_Scan s' cfg) =
     sum_list (map (\<lambda>location.
        case ARAPI.ListRepositories (ARScanner.client s') (project s') location of
          Inl err \<Rightarrow> 0
        | Inr repos \<Rightarrow> length repos) (locations s'))"
  by (simp add: ECRScanner_Scan_def ARScanner_scanLocation_def ecr_scanRepos_foldl
      ar_scanRepos_foldl ecr_foldl_RepositoriesScanned ar_foldl_RepositoriesScanned
      ARScanner_Scan_def ar_scanLocations_RepositoriesScanned emptyResult_def)

theorem repositories_scanned_counts_excluded_witness:
  "ScanResult.RepositoriesScanned (ECRScanner_Scan ecr_exclude_scanner exclude_cfg) = 2 \<and>
   ECRScanner_Scan ecr_exclude_scanner exclude_cfg =
     ECRScanner_scanRepository ecr_exclude_scanner exclude_cfg (ecr_makeRepo ''included'')
       (emptyResult\<lparr>ScanResult.RepositoriesScanned := 2\<rparr>) \<and>
   ScanResult.RepositoriesScanned
     (ARScanner_scanLocation ar_exclude_scanner exclude_cfg ''us-central1'' emptyResult) = 2 \<and>
   ARScanner_scanLocation ar_exclude_scanner exclude_cfg ''us-central1'' emptyResult =
     ARScanner_scanRepository ar_exclude_scanner exclude_cfg
       (ar_makeRepo ''projects/my-project/locations/us-central1/repositories/included''
          ''us-central1'' ''included'')
       (emptyResult\<lparr>ScanResult.RepositoriesScanned := 2\<rparr>) \<and>
   ScanResult.RepositoriesScanned (ARScanner_Scan ar_exclude_scanner exclude_cfg) = 2"
proof -
  let ?r1 = "ecr_makeRepo ''excluded''" and ?r2 = "ecr_makeRepo ''included''"
  let ?q1 = "ar_makeRepo ''projects/my-project/locations/us-central1/repositories/excluded''
               ''us-central1'' ''excluded''"
  let ?q2 = "ar_makeRepo ''projects/my-project/locations/us-central1/repositories/included''
               ''us-central1'' ''included''"
  have l1: "ECRAPI.ListRepositories (ECRScanner.client ecr_exclude_scanner) = Inr [?r1, ?r2]"
    by (simp add: ecr_exclude_scanner_def ecr_newTestScanner_def ecr_mockClient_def)
  have l2: "ARAPI.ListRepositories (ARScanner.client ar_exclude_scanner)
              (project ar_exclude_scanner) ''us-central1'' = Inr [?q1, ?q2]"
    by (simp add: ar_exclude_scanner_def ar_newTestScanner_def ar_mockClient_def)
  have x1: "excluded exclude_cfg (deref (RepositoryName ?r1))"
    and x2: "\<not> excluded exclude_cfg (deref (RepositoryName ?r2))"
    by (simp_all add: excluded_def exclude_cfg_def ecr_makeRepo_def deref_def)
  have y1: "excluded exclude_cfg (RepoID ?q1)" and y2: "\<not> excluded exclude_cfg (RepoID ?q2)"
    by (simp_all add: excluded_def exclude_cfg_def ar_makeRepo_def)
  have l3: "locations ar_exclude_scanner = [''us-central1'']"
    by (simp add: ar_exclude_scanner_def ar_newTestScanner_def)
  have e: "ScanResult.RepositoriesScanned emptyResult = 0"
    by (simp add: emptyResult_def)
  show ?thesis
    using repositories_scanned_counts_excluded
      [of ecr_exclude_scanner "[?r1, ?r2]" exclude_cfg ar_exclude_scanner "''us-central1''"
          "[?q1, ?q2]" emptyResult]
    by (simp add: l1 l2 l3 x1 x2 y1 y2 e numeral_2_eq_2
        ecr_scanRepository_RepositoriesScanned ar_scanRepository_RepositoriesScanned)
qed

end
